theory Spec2Isabelle
  imports Complex_Main
begin

section \<open>ForcePy: interaction categories and trajectory analyses\<close>

text \<open>
  A shallow embedding of \<^verbatim>\<open>ForcePy/ForceCategories.py\<close> and \<^verbatim>\<open>ForcePy/Analysis.py\<close>.
  The sources are Python 2 (they test \<^verbatim>\<open>type(x) == file\<close>), so \<^verbatim>\<open>/\<close> between two
  integers is floor division. A floating-point value is a real number; the division of
  two floats rounds its result, so it is not the division of the reals but a parameter
  \<open>fdiv\<close> of the functions that divide (\<open>fdiv x y\<close> is Python's \<^verbatim>\<open>x / y\<close> on floats, for
  \<open>y\<close> other than zero). Every exception of the source is a value of \<open>py_error\<close>; an
  operation that can raise returns \<open>py_error + 'a\<close> with \<open>Inl\<close> for the exception.
\<close>

datatype py_error =
    AssertionError
  | AttributeError
  | IndexError
  | KeyError
  | RuntimeError
  | TypeError
  | ValueError
  | ZeroDivisionError
  | ReError

subsection \<open>Categories with a neighbour structure\<close>

text \<open>
  \<^verbatim>\<open>ForceCategory.__init__\<close> sets only \<^verbatim>\<open>nlist_ready = False\<close>; the attributes
  \<^verbatim>\<open>nlist\<close> and \<^verbatim>\<open>nlist_lengths\<close> appear with the first build and are read only behind
  the readiness check, so the record holds empty lists before that. Array cells hold atom
  numbers. The \<^verbatim>\<open>forces\<close> and \<^verbatim>\<open>nlist_obj\<close> attributes of \<^verbatim>\<open>Pairwise\<close> are used by
  no operation of the two files and are left out.
\<close>

record force_category =
  nlist_ready :: bool
  nlist :: "nat list"
  nlist_lengths :: "nat list"

record pairwise = force_category +
  cutoff :: real

definition Pairwise_init :: "real \<Rightarrow> pairwise" where
  "Pairwise_init c = \<lparr>nlist_ready = False, nlist = [], nlist_lengths = [], cutoff = c\<rparr>"

text \<open>
  The class attribute \<^verbatim>\<open>Pairwise.instance\<close> is a reference to an object. The store keeps
  the \<^verbatim>\<open>Pairwise\<close> objects created so far (an address is an index into \<open>objects\<close>) and
  the class attribute as an optional address, so that "the same instance" is "the same
  address in an unchanged store".
\<close>

record pairwise_class =
  objects :: "pairwise list"
  Pairwise_instance :: "nat option"

text \<open>
  \<^verbatim>\<open>Pairwise.get_instance(*args)\<close>, lines 90-103. The argument list is \<^verbatim>\<open>args\<close>, with
  \<open>None\<close> for Python's \<^verbatim>\<open>None\<close>. The result is the returned reference and the store.
\<close>

fun Pairwise_get_instance ::
  "real option list \<Rightarrow> pairwise_class \<Rightarrow> py_error + (nat option \<times> pairwise_class)" where
  "Pairwise_get_instance [] st = Inr (Pairwise_instance st, st)"
| "Pairwise_get_instance (None # rest) st = Inr (Pairwise_instance st, st)"
| "Pairwise_get_instance (Some c # rest) st =
     (case Pairwise_instance st of
        None \<Rightarrow>
          (let a = length (objects st)
           in Inr (Some a, st\<lparr>objects := objects st @ [Pairwise_init c], Pairwise_instance := Some a\<rparr>))
      | Some a \<Rightarrow>
          if cutoff (objects st ! a) - c < 0 then Inl RuntimeError else Inr (Some a, st))"

subsection \<open>The trajectory frame\<close>

text \<open>
  The universe \<^verbatim>\<open>u\<close> comes from MDAnalysis and is only read: the positions of
  \<^verbatim>\<open>u.atoms.get_positions()\<close> (index = atom number), the box lengths of
  \<^verbatim>\<open>u.trajectory.ts.dimensions\<close>, \<^verbatim>\<open>u.trajectory.periodic\<close>, the bonds as pairs
  \<^verbatim>\<open>(b[0].number, b[1].number)\<close>, and the answers of \<^verbatim>\<open>u.atoms.selectAtoms\<close> as an
  association list from selection strings to atom numbers. \<^verbatim>\<open>u.atoms.numberOfAtoms()\<close>
  is the number of positions.
\<close>

type_synonym vec3 = "real \<times> real \<times> real"

record universe =
  positions :: "vec3 list"
  dimensions :: vec3
  periodic :: bool
  bonds :: "(nat \<times> nat) list"
  selections :: "(string \<times> nat list) list"

definition numberOfAtoms :: "universe \<Rightarrow> nat" where
  "numberOfAtoms u = length (positions u)"

definition selectAtoms :: "universe \<Rightarrow> string \<Rightarrow> nat list" where
  "selectAtoms u s = (case map_of (selections u) s of None \<Rightarrow> [] | Some as \<Rightarrow> as)"

subsection \<open>Geometry (ForcePy.Util)\<close>

definition vdiv :: "vec3 \<Rightarrow> real \<Rightarrow> vec3" where
  "vdiv r d = (case r of (x, y, z) \<Rightarrow> (x / d, y / d, z / d))"

definition np_cross :: "vec3 \<Rightarrow> vec3 \<Rightarrow> vec3" where
  "np_cross a b =
     (case a of (a1, a2, a3) \<Rightarrow> case b of (b1, b2, b3) \<Rightarrow>
        (a2 * b3 - a3 * b2, a3 * b1 - a1 * b3, a1 * b2 - a2 * b1))"

definition np_inner :: "vec3 \<Rightarrow> vec3 \<Rightarrow> real" where
  "np_inner a b =
     (case a of (a1, a2, a3) \<Rightarrow> case b of (b1, b2, b3) \<Rightarrow> a1 * b1 + a2 * b2 + a3 * b3)"

text \<open>
  Modelled from the spec: \<^verbatim>\<open>norm3\<close> of \<^verbatim>\<open>ForcePy/Util.py\<close>, which is not among the
  sources. Spec 4.1: "Euclidean norm of a 3-component vector".
\<close>

definition norm3 :: "vec3 \<Rightarrow> real" where
  "norm3 r = (case r of (x, y, z) \<Rightarrow> sqrt (x * x + y * y + z * z))"

text \<open>
  Modelled from the spec: \<^verbatim>\<open>min_img_vec\<close> of \<^verbatim>\<open>ForcePy/Util.py\<close>, which is not among
  the sources. Spec 4.1: "returns a - b adjusted component-wise into the nearest periodic
  image when periodic is true (for each dimension, if the raw difference exceeds half the
  box length, subtract/add one box length); returns raw difference when periodic is
  false".
\<close>

definition wrap_component :: "real \<Rightarrow> real \<Rightarrow> real" where
  "wrap_component dx l =
     (if dx > l / 2 then dx - l else if dx < - (l / 2) then dx + l else dx)"

definition min_img_vec :: "vec3 \<Rightarrow> vec3 \<Rightarrow> vec3 \<Rightarrow> bool \<Rightarrow> vec3" where
  "min_img_vec a b dims per =
     (case a of (a1, a2, a3) \<Rightarrow> case b of (b1, b2, b3) \<Rightarrow> case dims of (l1, l2, l3) \<Rightarrow>
        if per then (wrap_component (a1 - b1) l1, wrap_component (a2 - b2) l2,
                     wrap_component (a3 - b3) l3)
        else (a1 - b1, a2 - b2, a3 - b3))"

subsection \<open>Reading the neighbour structure\<close>

text \<open>
  \<^verbatim>\<open>ForceCategory.generate_nlist(i)\<close>, lines 23-27. The generator is consumed by a
  \<^verbatim>\<open>for\<close> loop; its assertion and its index error come before the first element, so
  the model returns either the error or the whole slice. A slice of an array never
  raises; \<^verbatim>\<open>nlist_lengths[i]\<close> does when \<open>i\<close> is out of range.
\<close>

definition generate_nlist :: "'a force_category_scheme \<Rightarrow> nat \<Rightarrow> py_error + nat list" where
  "generate_nlist self i =
     (if \<not> nlist_ready self then Inl AssertionError
      else
        (let nlist_accum = (if i > 0 then sum_list (take i (nlist_lengths self)) else 0)
         in if i < length (nlist_lengths self)
            then Inr (take (nlist_lengths self ! i) (drop nlist_accum (nlist self)))
            else Inl IndexError))"

text \<open>
  A generator that can raise in the middle is the list of what it yielded before, with
  the exception if there was one.
\<close>

type_synonym 'a generated = "'a list \<times> py_error option"

type_synonym neighbor_vec = "vec3 \<times> real \<times> int"

text \<open>
  The test \<^verbatim>\<open>mask and not mask[j]\<close> of line 34 for a mask that is \<^verbatim>\<open>None\<close> or a
  Python list: \<^verbatim>\<open>None\<close> and the empty list are false, so nothing is skipped; otherwise
  \<^verbatim>\<open>mask[j]\<close> is read, which raises when \<open>j\<close> is out of range.
\<close>

definition mask_skips :: "bool list option \<Rightarrow> nat \<Rightarrow> py_error + bool" where
  "mask_skips msk j =
     (case msk of
        None \<Rightarrow> Inr False
      | Some m \<Rightarrow>
          if m = [] then Inr False
          else if j < length m then Inr (\<not> m ! j)
          else Inl IndexError)"

text \<open>The loop of \<^verbatim>\<open>ForceCategory.generate_neighbor_vecs\<close>, lines 33-41.\<close>

fun neighbor_vecs_loop ::
  "universe \<Rightarrow> nat \<Rightarrow> bool list option \<Rightarrow> nat list \<Rightarrow> neighbor_vec generated" where
  "neighbor_vecs_loop u i msk [] = ([], None)"
| "neighbor_vecs_loop u i msk (j # js) =
     (case mask_skips msk j of
        Inl e \<Rightarrow> ([], Some e)
      | Inr True \<Rightarrow> neighbor_vecs_loop u i msk js
      | Inr False \<Rightarrow>
          if j < length (positions u) \<and> i < length (positions u) then
            (let r = min_img_vec (positions u ! j) (positions u ! i) (dimensions u) (periodic u);
                 d = norm3 r;
                 r' = (if d = 0 then r else vdiv r d)
             in case neighbor_vecs_loop u i msk js of (vs, e) \<Rightarrow> ((r', d, int j) # vs, e))
          else ([], Some IndexError))"

definition generate_neighbor_vecs ::
  "'a force_category_scheme \<Rightarrow> nat \<Rightarrow> universe \<Rightarrow> bool list option \<Rightarrow> neighbor_vec generated" where
  "generate_neighbor_vecs self i u msk =
     (case generate_nlist self i of
        Inl e \<Rightarrow> ([], Some e)
      | Inr js \<Rightarrow> neighbor_vecs_loop u i msk js)"

text \<open>\<^verbatim>\<open>Global.generate_neighbor_vecs\<close>, lines 68-74: one synthetic neighbour \<open>-1\<close>.\<close>

definition Global_generate_neighbor_vecs ::
  "vec3 \<Rightarrow> nat \<Rightarrow> universe \<Rightarrow> bool list option \<Rightarrow> neighbor_vec generated" where
  "Global_generate_neighbor_vecs vector i u msk =
     (if i < length (positions u)
      then ([(np_cross vector (positions u ! i), np_inner vector (positions u ! i), - 1)], None)
      else ([], Some IndexError))"

subsection \<open>The Bond category\<close>

text \<open>
  \<^verbatim>\<open>np.empty(n, dtype=np.int32)\<close> allocates \<open>n\<close> cells with arbitrary contents: cell \<open>k\<close>
  holds \<open>junk k\<close>.
\<close>

definition np_empty :: "(nat \<Rightarrow> nat) \<Rightarrow> nat \<Rightarrow> nat list" where
  "np_empty junk n = map junk [0..<n]"

text \<open>
  Lines 153-155: each bond is appended to the lists of both its atoms. Indexing
  \<^verbatim>\<open>temp\<close> with an atom number beyond the frame raises.
\<close>

fun append_bonds :: "(nat \<times> nat) list \<Rightarrow> nat list list \<Rightarrow> py_error + nat list list" where
  "append_bonds [] temp = Inr temp"
| "append_bonds ((a, b) # bs) temp =
     (if a < length temp then
        (let temp1 = temp[a := temp ! a @ [b]]
         in if b < length temp1 then append_bonds bs (temp1[b := temp1 ! b @ [a]])
            else Inl IndexError)
      else Inl IndexError)"

text \<open>
  Lines 160-162: the inner loop writes one cell per bonded neighbour; a write at or
  beyond the array's size raises \<^verbatim>\<open>IndexError\<close>.
\<close>

fun fill_nlist :: "nat list \<Rightarrow> nat list \<Rightarrow> nat \<Rightarrow> py_error + (nat list \<times> nat)" where
  "fill_nlist [] nl nlist_accum = Inr (nl, nlist_accum)"
| "fill_nlist (b # bl) nl nlist_accum =
     (if nlist_accum < length nl then fill_nlist bl (nl[nlist_accum := b]) (Suc nlist_accum)
      else Inl IndexError)"

text \<open>Lines 158-162: the loop over \<^verbatim>\<open>zip(range(n), temp)\<close>.\<close>

fun unwrap_bonds ::
  "(nat \<times> nat list) list \<Rightarrow> nat list list \<Rightarrow> nat list \<Rightarrow> nat list \<Rightarrow> nat
     \<Rightarrow> py_error + (nat list \<times> nat list \<times> nat)" where
  "unwrap_bonds [] temp nl lens nlist_accum = Inr (nl, lens, nlist_accum)"
| "unwrap_bonds ((i, bl) # rest) temp nl lens nlist_accum =
     (let lens' = lens[i := length (temp ! i)]
      in case fill_nlist bl nl nlist_accum of
           Inl e \<Rightarrow> Inl e
         | Inr (nl', nlist_accum') \<Rightarrow> unwrap_bonds rest temp nl' lens' nlist_accum')"

text \<open>
  \<^verbatim>\<open>Bond._build_nlist(u)\<close>, lines 147-166. The capacity of line 150 is
  \<^verbatim>\<open>(n - 1) * (n / 2)\<close> with Python 2's floor division. An exception leaves the category
  not ready; the model returns the exception alone.
\<close>

definition Bond_build_nlist ::
  "(nat \<Rightarrow> nat) \<Rightarrow> universe \<Rightarrow> force_category \<Rightarrow> py_error + force_category" where
  "Bond_build_nlist junk u self =
     (let n = numberOfAtoms u;
          temp = replicate n [];
          nl0 = np_empty junk (nat ((int n - 1) * (int n div 2)));
          lens0 = np_empty junk n
      in case append_bonds (bonds u) temp of
           Inl e \<Rightarrow> Inl e
         | Inr temp' \<Rightarrow>
             (case unwrap_bonds (zip [0..<n] temp') temp' nl0 lens0 0 of
                Inl e \<Rightarrow> Inl e
              | Inr (nl, lens, nlist_accum) \<Rightarrow>
                  Inr (self\<lparr>nlist_ready := True, nlist := take nlist_accum nl,
                            nlist_lengths := lens\<rparr>)))"

text \<open>\<^verbatim>\<open>Bond._setup\<close> and \<^verbatim>\<open>Bond._teardown\<close>, lines 168-173.\<close>

definition Bond_setup ::
  "(nat \<Rightarrow> nat) \<Rightarrow> universe \<Rightarrow> force_category \<Rightarrow> py_error + force_category" where
  "Bond_setup junk u self =
     (if \<not> nlist_ready self then Bond_build_nlist junk u self else Inr self)"

definition Bond_teardown :: "force_category \<Rightarrow> force_category" where
  "Bond_teardown self = self\<lparr>nlist_ready := False\<rparr>"

text \<open>
  \<^verbatim>\<open>Bond.pair_exists\<close>, lines 175-189: the neighbours of every atom of the first
  selection are looked up in the second; \<^verbatim>\<open>u.atoms[int(j)]\<close> raises for a neighbour
  beyond the frame.
\<close>

fun pair_in_slice :: "universe \<Rightarrow> nat list \<Rightarrow> nat list \<Rightarrow> py_error + bool" where
  "pair_in_slice u sel2 [] = Inr False"
| "pair_in_slice u sel2 (j # js) =
     (if j < numberOfAtoms u then
        (if j \<in> set sel2 then Inr True else pair_in_slice u sel2 js)
      else Inl IndexError)"

fun pair_exists_loop ::
  "force_category \<Rightarrow> universe \<Rightarrow> nat list \<Rightarrow> nat list \<Rightarrow> py_error + bool" where
  "pair_exists_loop self u sel2 [] = Inr False"
| "pair_exists_loop self u sel2 (i # rest) =
     (let nlist_accum = (if i > 0 then sum_list (take i (nlist_lengths self)) else 0)
      in if i < length (nlist_lengths self) then
           (case pair_in_slice u sel2
                   (take (nlist_lengths self ! i) (drop nlist_accum (nlist self))) of
              Inl e \<Rightarrow> Inl e
            | Inr True \<Rightarrow> Inr True
            | Inr False \<Rightarrow> pair_exists_loop self u sel2 rest)
         else Inl IndexError)"

definition Bond_pair_exists ::
  "(nat \<Rightarrow> nat) \<Rightarrow> force_category \<Rightarrow> universe \<Rightarrow> string \<Rightarrow> string
     \<Rightarrow> py_error + (bool \<times> force_category)" where
  "Bond_pair_exists junk self u type1 type2 =
     (case (if \<not> nlist_ready self then Bond_build_nlist junk u self else Inr self) of
        Inl e \<Rightarrow> Inl e
      | Inr self' \<Rightarrow>
          (case pair_exists_loop self' u (selectAtoms u type2) (selectAtoms u type1) of
             Inl e \<Rightarrow> Inl e
           | Inr found \<Rightarrow> Inr (found, self')))"

text \<open>
  The operations a caller can apply to the Bond category, and a run of them: the first
  exception ends the run.
\<close>

datatype bond_op =
    Setup universe
  | Teardown
  | GenerateNlist nat
  | GenerateNeighborVecs nat universe "bool list option"
  | PairExists universe string string

fun bond_step :: "(nat \<Rightarrow> nat) \<Rightarrow> bond_op \<Rightarrow> force_category \<Rightarrow> py_error + force_category" where
  "bond_step junk (Setup u) self = Bond_setup junk u self"
| "bond_step junk Teardown self = Inr (Bond_teardown self)"
| "bond_step junk (GenerateNlist i) self =
     (case generate_nlist self i of Inl e \<Rightarrow> Inl e | Inr js \<Rightarrow> Inr self)"
| "bond_step junk (GenerateNeighborVecs i u msk) self =
     (case generate_neighbor_vecs self i u msk of
        (vs, Some e) \<Rightarrow> Inl e
      | (vs, None) \<Rightarrow> Inr self)"
| "bond_step junk (PairExists u type1 type2) self =
     (case Bond_pair_exists junk self u type1 type2 of
        Inl e \<Rightarrow> Inl e
      | Inr (found, self') \<Rightarrow> Inr self')"

fun bond_run :: "(nat \<Rightarrow> nat) \<Rightarrow> bond_op list \<Rightarrow> force_category \<Rightarrow> py_error + force_category" where
  "bond_run junk [] self = Inr self"
| "bond_run junk (op # ops) self =
     (case bond_step junk op self of Inl e \<Rightarrow> Inl e | Inr self' \<Rightarrow> bond_run junk ops self')"

subsection \<open>The Analysis base class\<close>

text \<open>
  An analysis only reads its category, so its \<^verbatim>\<open>category\<close> attribute holds the value of
  the object that \<^verbatim>\<open>get_instance\<close> returned: \<^verbatim>\<open>None\<close>, a \<^verbatim>\<open>Pairwise\<close>, a \<^verbatim>\<open>Bond\<close> or a
  \<^verbatim>\<open>Global\<close> with its vector.
\<close>

datatype category_ref =
    NoCategory
  | PairwiseRef pairwise
  | BondRef force_category
  | GlobalRef vec3

fun category_neighbor_vecs ::
  "category_ref \<Rightarrow> nat \<Rightarrow> universe \<Rightarrow> bool list option \<Rightarrow> neighbor_vec generated" where
  "category_neighbor_vecs NoCategory i u msk = ([], Some AttributeError)"
| "category_neighbor_vecs (PairwiseRef c) i u msk = generate_neighbor_vecs c i u msk"
| "category_neighbor_vecs (BondRef c) i u msk = generate_neighbor_vecs c i u msk"
| "category_neighbor_vecs (GlobalRef v) i u msk = Global_generate_neighbor_vecs v i u msk"

text \<open>
  The output destination is a path or a file object; a file object has its name, its
  position and whether it is closed. File objects are those opened for writing, as
  \<^verbatim>\<open>write\<close> opens them (mode \<^verbatim>\<open>'w'\<close>).
\<close>

datatype outfile_val =
    Path string
  | File string nat bool

text \<open>
  The attributes of \<^verbatim>\<open>Analysis.__init__\<close>, lines 15-23. An attribute dictionary can lack
  \<^verbatim>\<open>outfile\<close> (after \<^verbatim>\<open>__getstate__\<close>), so that field is optional; the masks and the
  selections are \<^verbatim>\<open>None\<close> until they are set. Masks are Python lists, as
  \<^verbatim>\<open>_build_mask\<close> builds them.
\<close>

record analysis =
  category :: category_ref
  period :: int
  outfile :: "outfile_val option"
  update_counts :: int
  sel1 :: "string option"
  sel2 :: "string option"
  mask1 :: "bool list option"
  mask2 :: "bool list option"

definition Analysis_init :: "category_ref \<Rightarrow> int \<Rightarrow> outfile_val \<Rightarrow> analysis" where
  "Analysis_init cat p out =
     \<lparr>category = cat, period = p, outfile = Some out, update_counts = 0,
      sel1 = None, sel2 = None, mask1 = None, mask2 = None\<rparr>"



text \<open>
  \<^verbatim>\<open>Analysis.valid_pair\<close>, lines 67-86. An argument is a \<^verbatim>\<open>str\<close> or an object with a
  \<^verbatim>\<open>type\<close> attribute. \<^verbatim>\<open>re.match\<close> of the standard library is a parameter for its
  answer on a pattern that is a string (\<open>True\<close> for a match object, \<open>False\<close> for
  \<^verbatim>\<open>None\<close>); on the pattern \<^verbatim>\<open>None\<close> it raises \<^verbatim>\<open>TypeError\<close> ("first argument must be
  string or compiled pattern"). \<^verbatim>\<open>and\<close> does not evaluate its second operand when the
  first is false.
\<close>

datatype atom_arg =
    Str string
  | Atom string

fun atom_type :: "atom_arg \<Rightarrow> string" where
  "atom_type (Str s) = s"
| "atom_type (Atom t) = t"

definition re_match ::
  "(string \<Rightarrow> string \<Rightarrow> py_error + bool) \<Rightarrow> string option \<Rightarrow> string \<Rightarrow> py_error + bool" where
  "re_match rm pat s = (case pat of None \<Rightarrow> Inl TypeError | Some p \<Rightarrow> rm p s)"

definition match_both ::
  "(string \<Rightarrow> string \<Rightarrow> py_error + bool) \<Rightarrow> string option \<Rightarrow> string \<Rightarrow> string option \<Rightarrow> string
     \<Rightarrow> py_error + bool" where
  "match_both rm p a q b =
     (case re_match rm p a of
        Inl e \<Rightarrow> Inl e
      | Inr False \<Rightarrow> Inr False
      | Inr True \<Rightarrow> re_match rm q b)"

definition valid_pair ::
  "(string \<Rightarrow> string \<Rightarrow> py_error + bool) \<Rightarrow> 'a analysis_scheme \<Rightarrow> atom_arg \<Rightarrow> atom_arg
     \<Rightarrow> py_error + bool" where
  "valid_pair rm self atom1 atom2 =
     (let a1 = atom_type atom1; a2 = atom_type atom2;
          body =
            (case match_both rm (sel1 self) a1 (sel2 self) a2 of
               Inl e \<Rightarrow> Inl e
             | Inr True \<Rightarrow> Inr True
             | Inr False \<Rightarrow>
                 (case match_both rm (sel2 self) a1 (sel1 self) a2 of
                    Inl e \<Rightarrow> Inl e
                  | Inr True \<Rightarrow> Inr True
                  | Inr False \<Rightarrow> Inr False))
      in case body of
           Inl e \<Rightarrow> if e = AttributeError then Inr True else Inl e
         | Inr b \<Rightarrow> Inr b)"

text \<open>
  \<^verbatim>\<open>self.mask1[i]\<close>: \<^verbatim>\<open>TypeError\<close> on \<^verbatim>\<open>None\<close>, \<^verbatim>\<open>IndexError\<close> out of range.
\<close>

definition mask_get :: "bool list option \<Rightarrow> nat \<Rightarrow> py_error + bool" where
  "mask_get m i =
     (case m of
        None \<Rightarrow> Inl TypeError
      | Some l \<Rightarrow> if i < length l then Inr (l ! i) else Inl IndexError)"

text \<open>
  The choice of \<^verbatim>\<open>maskj\<close>, lines 103-108 of \<^verbatim>\<open>RDF.do_update\<close> and 154-159 of
  \<^verbatim>\<open>CoordNumber.do_update\<close>: \<open>Inr None\<close> is \<^verbatim>\<open>continue\<close>.
\<close>

definition choose_maskj :: "'a analysis_scheme \<Rightarrow> nat \<Rightarrow> py_error + bool list option option" where
  "choose_maskj self i =
     (case mask_get (mask1 self) i of
        Inl e \<Rightarrow> Inl e
      | Inr True \<Rightarrow> Inr (Some (mask2 self))
      | Inr False \<Rightarrow>
          (case mask_get (mask2 self) i of
             Inl e \<Rightarrow> Inl e
           | Inr True \<Rightarrow> Inr (Some (mask1 self))
           | Inr False \<Rightarrow> Inr None))"

subsection \<open>RDF\<close>

record rdf = analysis +
  hist :: "int list"
  binsize :: real
  rdf_cutoff :: real

text \<open>
  \<^verbatim>\<open>self.hist[b] += 1\<close> on a Python list: a negative index counts from the end, an index
  outside \<open>-len .. len-1\<close> raises.
\<close>

definition hist_incr :: "int list \<Rightarrow> int \<Rightarrow> py_error + int list" where
  "hist_incr h b =
     (let n = int (length h); k = (if b < 0 then n + b else b)
      in if 0 \<le> k \<and> k < n then Inr (h[nat k := h ! nat k + 1]) else Inl IndexError)"

text \<open>
  The body of the inner loop, lines 110-113, over the triples already yielded. Line 111
  is \<^verbatim>\<open>int(floor(d / self.binsize))\<close>: the floor of the rounded quotient of two floats,
  \<open>fdiv d bs\<close>. The division raises for a bin size of zero.
\<close>

fun RDF_bin_loop ::
  "(real \<Rightarrow> real \<Rightarrow> real) \<Rightarrow> nat \<Rightarrow> real \<Rightarrow> neighbor_vec list \<Rightarrow> int list
     \<Rightarrow> py_error + int list" where
  "RDF_bin_loop fdiv i bs [] h = Inr h"
| "RDF_bin_loop fdiv i bs ((r, d, j) # vs) h =
     (if int i < j then
        (if bs = 0 then Inl ZeroDivisionError
         else
           (let b = \<lfloor>fdiv d bs\<rfloor>
            in if b < int (length h) then
                 (case hist_incr h b of
                    Inl e \<Rightarrow> Inl e
                  | Inr h' \<Rightarrow> RDF_bin_loop fdiv i bs vs h')
               else RDF_bin_loop fdiv i bs vs h))
      else RDF_bin_loop fdiv i bs vs h)"

text \<open>
  The inner loop over a generator: the body runs on what was yielded, and the
  generator's exception, if any, comes after that.
\<close>

definition RDF_neighbors ::
  "(real \<Rightarrow> real \<Rightarrow> real) \<Rightarrow> nat \<Rightarrow> real \<Rightarrow> neighbor_vec generated \<Rightarrow> int list
     \<Rightarrow> py_error + int list" where
  "RDF_neighbors fdiv i bs g h =
     (case g of (vs, e) \<Rightarrow>
        (case RDF_bin_loop fdiv i bs vs h of
           Inl e' \<Rightarrow> Inl e'
         | Inr h' \<Rightarrow> (case e of None \<Rightarrow> Inr h' | Some e' \<Rightarrow> Inl e')))"

fun RDF_particles ::
  "(real \<Rightarrow> real \<Rightarrow> real) \<Rightarrow> rdf \<Rightarrow> universe \<Rightarrow> nat list \<Rightarrow> int list
     \<Rightarrow> py_error + int list" where
  "RDF_particles fdiv self u [] h = Inr h"
| "RDF_particles fdiv self u (i # rest) h =
     (case choose_maskj self i of
        Inl e \<Rightarrow> Inl e
      | Inr None \<Rightarrow> RDF_particles fdiv self u rest h
      | Inr (Some maskj) \<Rightarrow>
          (case RDF_neighbors fdiv i (binsize self)
                  (category_neighbor_vecs (category self) i u maskj) h of
             Inl e \<Rightarrow> Inl e
           | Inr h' \<Rightarrow> RDF_particles fdiv self u rest h'))"

text \<open>\<^verbatim>\<open>RDF.do_update(u)\<close>, lines 100-113.\<close>

definition RDF_do_update ::
  "(real \<Rightarrow> real \<Rightarrow> real) \<Rightarrow> rdf \<Rightarrow> universe \<Rightarrow> py_error + rdf" where
  "RDF_do_update fdiv self u =
     (case RDF_particles fdiv self u [0..<numberOfAtoms u] (hist self) of
        Inl e \<Rightarrow> Inl e
      | Inr h \<Rightarrow> Inr (self\<lparr>hist := h\<rparr>))"

text \<open>
  \<^verbatim>\<open>RDF.__getstate__\<close>, lines 115-122: the pair of the returned dictionary and the
  object afterwards. The dictionary is copied before the object is touched, and its
  \<^verbatim>\<open>outfile\<close> entry is deleted. Reading \<^verbatim>\<open>self.outfile\<close> raises when the attribute is
  missing.
\<close>

definition RDF_getstate :: "rdf \<Rightarrow> py_error + (rdf \<times> rdf)" where
  "RDF_getstate self =
     (case outfile self of
        None \<Rightarrow> Inl AttributeError
      | Some v \<Rightarrow>
          (let odict = self;
               self' = (case v of
                          File name pos cl \<Rightarrow> self\<lparr>outfile := Some (Path name)\<rparr>
                        | Path p \<Rightarrow> self)
           in Inr (odict\<lparr>outfile := None\<rparr>, self')))"

text \<open>
  Files are an association list from paths to contents, as they read once every buffer
  is flushed. \<^verbatim>\<open>open(path, 'w')\<close> creates the file or truncates it to nothing (in the
  model every path can be opened); a write at a position replaces what is there and
  extends the file.
\<close>

type_synonym files = "(string \<times> string) list"

fun fs_put :: "files \<Rightarrow> string \<Rightarrow> string \<Rightarrow> files" where
  "fs_put [] p c = [(p, c)]"
| "fs_put ((q, d) # rest) p c = (if q = p then (p, c) # rest else (q, d) # fs_put rest p c)"

definition fs_content :: "files \<Rightarrow> string \<Rightarrow> string" where
  "fs_content fs p = (case map_of fs p of None \<Rightarrow> [] | Some c \<Rightarrow> c)"

definition file_write :: "string \<Rightarrow> nat \<Rightarrow> string \<Rightarrow> string \<times> nat" where
  "file_write content pos data =
     (take pos content @ data @ drop (pos + length data) content, pos + length data)"

fun write_rows :: "string list \<Rightarrow> string \<Rightarrow> nat \<Rightarrow> string \<times> nat" where
  "write_rows [] content pos = (content, pos)"
| "write_rows (row # rows) content pos =
     (case file_write content pos row of (content', pos') \<Rightarrow> write_rows rows content' pos')"

text \<open>
  \<^verbatim>\<open>RDF.write()\<close>, lines 124-139. The density and the formatted rows of lines 131-139
  are floating-point work on \<^verbatim>\<open>hist\<close>, \<^verbatim>\<open>cutoff\<close> and \<^verbatim>\<open>binsize\<close>; their outcome is the
  parameter \<open>table\<close>: the rows (one string per \<^verbatim>\<open>outfile.write\<close>), or the exception of
  the density computation, raised before any row is written. The result is the exception
  if any, the object and the files afterwards. \<^verbatim>\<open>seek\<close> on a closed file raises
  \<^verbatim>\<open>ValueError\<close>.
\<close>

definition RDF_write ::
  "(py_error + string list) \<Rightarrow> rdf \<Rightarrow> files \<Rightarrow> py_error option \<times> rdf \<times> files" where
  "RDF_write table self fs =
     (case outfile self of
        None \<Rightarrow> (Some AttributeError, self, fs)
      | Some v \<Rightarrow>
          (case (case v of
                   Path p \<Rightarrow> (p, False, fs_put fs p [])
                 | File name pos cl \<Rightarrow> (name, cl, fs)) of
             (name, cl, fs1) \<Rightarrow>
               if cl then (Some ValueError, self, fs1)
               else
                 (case table of
                    Inl e \<Rightarrow> (Some e, self\<lparr>outfile := Some (File name 0 False)\<rparr>, fs1)
                  | Inr rows \<Rightarrow>
                      (case write_rows rows (fs_content fs1 name) 0 of
                         (content, pos) \<Rightarrow>
                           (None, self\<lparr>outfile := Some (File name pos False)\<rparr>,
                            fs_put fs1 name content)))))"

text \<open>The destination of an output value: the path, or the name of the file object.\<close>

fun outfile_name :: "outfile_val \<Rightarrow> string" where
  "outfile_name (Path p) = p"
| "outfile_name (File name pos cl) = name"

subsection \<open>CoordNumber\<close>

text \<open>The attribute \<^verbatim>\<open>cn\<close> exists only once \<^verbatim>\<open>do_update\<close> has run.\<close>

record coord_number = analysis +
  cn_cutoff :: real
  r0 :: real
  cn :: "real option"

text \<open>Lines 161-163: the count of the yielded neighbours \<open>j > i\<close> closer than \<open>r0\<close>.\<close>

fun CN_count_loop :: "nat \<Rightarrow> real \<Rightarrow> neighbor_vec list \<Rightarrow> int \<Rightarrow> int" where
  "CN_count_loop i thr [] c = c"
| "CN_count_loop i thr ((r, d, j) # vs) c =
     (if int i < j \<and> d < thr then CN_count_loop i thr vs (c + 1)
      else CN_count_loop i thr vs c)"

text \<open>Lines 152-163: the loop over the particles, with \<^verbatim>\<open>self.cn\<close> and \<^verbatim>\<open>count\<close>.\<close>

fun CN_particles ::
  "coord_number \<Rightarrow> universe \<Rightarrow> nat list \<Rightarrow> int \<Rightarrow> int \<Rightarrow> py_error + (int \<times> int)" where
  "CN_particles self u [] c count = Inr (c, count)"
| "CN_particles self u (i # rest) c count =
     (case choose_maskj self i of
        Inl e \<Rightarrow> Inl e
      | Inr None \<Rightarrow> CN_particles self u rest c count
      | Inr (Some maskj) \<Rightarrow>
          (case category_neighbor_vecs (category self) i u maskj of
             (vs, Some e) \<Rightarrow> Inl e
           | (vs, None) \<Rightarrow>
               CN_particles self u rest (CN_count_loop i (r0 self) vs c) (count + 1)))"

text \<open>
  \<^verbatim>\<open>CoordNumber.do_update(u)\<close>, lines 149-166. \<^verbatim>\<open>self.cn /= float(count)\<close> is a float
  division, \<open>fdiv\<close>, and raises \<^verbatim>\<open>ZeroDivisionError\<close> for a count of zero; doubling a
  float is exact.
\<close>

definition CoordNumber_do_update ::
  "(real \<Rightarrow> real \<Rightarrow> real) \<Rightarrow> coord_number \<Rightarrow> universe \<Rightarrow> py_error + coord_number" where
  "CoordNumber_do_update fdiv self u =
     (case CN_particles self u [0..<numberOfAtoms u] 0 0 of
        Inl e \<Rightarrow> Inl e
      | Inr (c, count) \<Rightarrow>
          if count = 0 then Inl ZeroDivisionError
          else Inr (self\<lparr>cn := Some (fdiv (real_of_int c) (real_of_int count) * 2)\<rparr>))"

subsection \<open>Neighbour vectors, in the words of the spec\<close>

text \<open>
  Spec 3: the neighbours of particle \<open>i\<close> occupy the contiguous slice that starts at the
  sum of the lengths before \<open>i\<close> and has the length of \<open>i\<close>.
\<close>

definition slice_of :: "'a force_category_scheme \<Rightarrow> nat \<Rightarrow> nat list" where
  "slice_of self i =
     take (nlist_lengths self ! i) (drop (sum_list (take i (nlist_lengths self))) (nlist self))"

text \<open>
  The minimum-image displacement from particle \<open>i\<close> to particle \<open>j\<close>, and their
  minimum-image distance.
\<close>

definition displacement :: "universe \<Rightarrow> nat \<Rightarrow> nat \<Rightarrow> vec3" where
  "displacement u i j =
     min_img_vec (positions u ! j) (positions u ! i) (dimensions u) (periodic u)"

definition pair_distance :: "universe \<Rightarrow> nat \<Rightarrow> nat \<Rightarrow> real" where
  "pair_distance u i j = norm3 (displacement u i j)"

text \<open>
  Spec 4.3: the direction is the unit vector of the displacement, and the zero vector
  when the distance is exactly zero.
\<close>

definition unit_direction :: "vec3 \<Rightarrow> vec3" where
  "unit_direction r = (if norm3 r = 0 then (0, 0, 0) else vdiv r (norm3 r))"

subsection \<open>The selection groups and the pairs of an analysis, in the words of the spec\<close>

text \<open>
  Spec 3: a neighbour structure belongs to a frame of \<open>n\<close> particles when it is ready, has
  one length per particle and lists particles of the frame only. A \<^verbatim>\<open>Global\<close> category
  has no neighbour structure and is always ready; an analysis without a category has
  nothing to read.
\<close>

definition neighbor_structure_ok :: "'a force_category_scheme \<Rightarrow> nat \<Rightarrow> bool" where
  "neighbor_structure_ok c n =
     (nlist_ready c \<and> length (nlist_lengths c) = n \<and> list_all (\<lambda>j. j < n) (nlist c))"

fun category_ok :: "category_ref \<Rightarrow> nat \<Rightarrow> bool" where
  "category_ok NoCategory n = False"
| "category_ok (PairwiseRef c) n = neighbor_structure_ok c n"
| "category_ok (BondRef c) n = neighbor_structure_ok c n"
| "category_ok (GlobalRef v) n = True"

text \<open>
  The particles listed as neighbours of \<open>i\<close>: its slice; none for a \<^verbatim>\<open>Global\<close> category,
  whose one pseudo-neighbour \<open>-1\<close> is not a particle.
\<close>

fun listed_neighbors :: "category_ref \<Rightarrow> nat \<Rightarrow> nat list" where
  "listed_neighbors NoCategory i = []"
| "listed_neighbors (PairwiseRef c) i = slice_of c i"
| "listed_neighbors (BondRef c) i = slice_of c i"
| "listed_neighbors (GlobalRef v) i = []"

text \<open>
  Particle \<open>i\<close> is in a group when the group's mask holds at \<open>i\<close>. The contributing
  particles of a frame are those in group 1 or group 2. A particle of group 1 looks for
  its neighbours in group 2, any other in group 1. The pairs of a frame are the pairs
  \<open>(i, j)\<close> of a contributing particle \<open>i\<close> and a listed neighbour \<open>j\<close> of it with \<open>i < j\<close>
  in the group \<open>i\<close> looks in.
\<close>

definition in_group :: "bool list option \<Rightarrow> nat \<Rightarrow> bool" where
  "in_group m i = (case m of None \<Rightarrow> False | Some l \<Rightarrow> i < length l \<and> l ! i)"

definition contributing :: "'a analysis_scheme \<Rightarrow> universe \<Rightarrow> nat list" where
  "contributing self u =
     filter (\<lambda>i. in_group (mask1 self) i \<or> in_group (mask2 self) i) [0..<numberOfAtoms u]"

definition complementary_mask :: "'a analysis_scheme \<Rightarrow> nat \<Rightarrow> bool list option" where
  "complementary_mask self i = (if in_group (mask1 self) i then mask2 self else mask1 self)"

definition partners :: "'a analysis_scheme \<Rightarrow> nat \<Rightarrow> nat list" where
  "partners self i =
     filter (\<lambda>j. i < j \<and> in_group (complementary_mask self i) j)
            (listed_neighbors (category self) i)"

definition pairs_of :: "'a analysis_scheme \<Rightarrow> universe \<Rightarrow> (nat \<times> nat) list" where
  "pairs_of self u = concat (map (\<lambda>i. map (Pair i) (partners self i)) (contributing self u))"

text \<open>
  The counted pairs of a coordination number: the pairs at a minimum-image distance
  below \<open>r0\<close>.
\<close>

definition counted_pairs :: "coord_number \<Rightarrow> universe \<Rightarrow> nat" where
  "counted_pairs self u =
     length (filter (\<lambda>(i, j). pair_distance u i j < r0 self) (pairs_of self u))"

text \<open>
  The bins of a radial distribution update: \<open>floor(distance / binsize)\<close> of every pair,
  with the division of floats.
\<close>

definition rdf_bins :: "(real \<Rightarrow> real \<Rightarrow> real) \<Rightarrow> rdf \<Rightarrow> universe \<Rightarrow> int list" where
  "rdf_bins fdiv self u =
     map (\<lambda>(i, j). \<lfloor>fdiv (pair_distance u i j) (binsize self)\<rfloor>) (pairs_of self u)"

text \<open>
  What the category's generator yields for particle \<open>i\<close> under the mask \<open>i\<close> looks in
  (used in the proofs).
\<close>

definition neighbors_of :: "'a analysis_scheme \<Rightarrow> universe \<Rightarrow> nat \<Rightarrow> neighbor_vec list" where
  "neighbors_of self u i =
     fst (category_neighbor_vecs (category self) i u (complementary_mask self i))"

section \<open>Theorems\<close>

subsection \<open>The shared Pairwise instance and its cutoff\<close>

text \<open>
  C1 as stated: with an instance of cutoff \<open>c\<close> in place, a request with \<open>c' \<ge> c\<close> returns
  the instance and a request with \<open>c' < c\<close> raises. The guard of line 101 is
  \<^verbatim>\<open>instance.cutoff - args[0] < 0\<close>: it raises when the requested cutoff is larger than
  the established one. With an instance of cutoff 10, the request for 12 raises and the
  request for 8 returns the instance, both against the claim.
\<close>

theorem Pairwise_get_instance_counterexample:
  "Pairwise_get_instance [Some 12] \<lparr>objects = [Pairwise_init 10], Pairwise_instance = Some 0\<rparr>
     = Inl RuntimeError
   \<and> Pairwise_get_instance [Some 8] \<lparr>objects = [Pairwise_init 10], Pairwise_instance = Some 0\<rparr>
     = Inr (Some 0, \<lparr>objects = [Pairwise_init 10], Pairwise_instance = Some 0\<rparr>)"
  by (simp add: Pairwise_init_def)

text \<open>
  C1 as amended: with an instance at address \<open>a\<close> of cutoff \<open>c\<close> in place, a request with
  \<open>c' \<le> c\<close> returns the address \<open>a\<close> and leaves the store as it is, and a request with
  \<open>c' > c\<close> raises the incompatible-cutoff \<^verbatim>\<open>RuntimeError\<close>.
\<close>

theorem Pairwise_get_instance_cutoff:
  assumes "Pairwise_instance st = Some a"
    and "a < length (objects st)"
    and "cutoff (objects st ! a) = c"
  shows "Pairwise_get_instance (Some c' # rest) st
         = (if c' \<le> c then Inr (Some a, st) else Inl RuntimeError)"
  using assms by auto

theorem Pairwise_get_instance_cutoff_witness:
  "Pairwise_get_instance [Some 5] \<lparr>objects = [Pairwise_init 7], Pairwise_instance = Some 0\<rparr>
     = Inr (Some 0, \<lparr>objects = [Pairwise_init 7], Pairwise_instance = Some 0\<rparr>)
   \<and> Pairwise_get_instance [Some 9] \<lparr>objects = [Pairwise_init 7], Pairwise_instance = Some 0\<rparr>
     = Inl RuntimeError"
  using Pairwise_get_instance_cutoff
    [of "\<lparr>objects = [Pairwise_init 7], Pairwise_instance = Some 0\<rparr>" 0 7 5 "[]"]
    Pairwise_get_instance_cutoff
    [of "\<lparr>objects = [Pairwise_init 7], Pairwise_instance = Some 0\<rparr>" 0 7 9 "[]"]
  by (simp add: Pairwise_init_def)

subsection \<open>The Bond category's neighbour structure\<close>

text \<open>
  C2: the example of the spec, the bonds \<open>(0,1)\<close> and \<open>(1,2)\<close> on three particles. Line 150
  allocates \<^verbatim>\<open>(3 - 1) * (3 / 2) = 2\<close> cells, the two bonds need four (each bond is
  entered for both its atoms), and the third write raises \<^verbatim>\<open>IndexError\<close>: the build
  does not produce the lengths \<open>[1,2,1]\<close>, whatever the arrays held before.
\<close>

theorem Bond_build_nlist_example_fails:
  "Bond_build_nlist junk
     \<lparr>positions = [(0, 0, 0), (1, 0, 0), (2, 0, 0)], dimensions = (10, 10, 10),
      periodic = False, bonds = [(0, 1), (1, 2)], selections = []\<rparr> self
   = Inl IndexError"
  by (simp add: Bond_build_nlist_def numberOfAtoms_def np_empty_def upt_rec)

lemma append_bonds_length:
  "append_bonds bs temp = Inr temp' \<Longrightarrow> length temp' = length temp"
  by (induction bs temp rule: append_bonds.induct) (auto simp: Let_def split: if_splits)

lemma fill_nlist_result:
  "fill_nlist bl nl acc = Inr (nl', acc') \<Longrightarrow>
     acc' = acc + length bl \<and> length nl' = length nl \<and> (acc \<le> length nl \<longrightarrow> acc' \<le> length nl)"
  by (induction bl nl acc rule: fill_nlist.induct) (auto split: if_splits)

lemma unwrap_bonds_result:
  "unwrap_bonds ps temp nl lens acc = Inr (nl', lens', acc') \<Longrightarrow>
     acc' = acc + sum_list (map (length \<circ> snd) ps) \<and> length nl' = length nl
     \<and> (acc \<le> length nl \<longrightarrow> acc' \<le> length nl)
     \<and> length lens' = length lens
     \<and> (\<forall>k < length lens. lens' ! k = (if k \<in> fst ` set ps then length (temp ! k) else lens ! k))"
proof (induction ps temp nl lens acc rule: unwrap_bonds.induct)
  case (1 temp nl lens acc)
  then show ?case by simp
next
  case (2 i bl rest temp nl lens acc)
  from "2.prems" obtain nl1 acc1 where
    f: "fill_nlist bl nl acc = Inr (nl1, acc1)" and
    u: "unwrap_bonds rest temp nl1 (lens[i := length (temp ! i)]) acc1 = Inr (nl', lens', acc')"
    by (auto simp: Let_def split: sum.splits)
  note ih = "2.IH"[OF refl f refl u]
  from fill_nlist_result[OF f] ih show ?case
    by (auto simp: nth_list_update)
qed

lemma Bond_build_nlist_result:
  assumes "Bond_build_nlist junk u self = Inr b"
  shows "nlist_ready b \<and> sum_list (nlist_lengths b) = length (nlist b)
         \<and> length (nlist_lengths b) = numberOfAtoms u"
proof -
  define n where "n = numberOfAtoms u"
  define cap where "cap = nat ((int n - 1) * (int n div 2))"
  from assms obtain temp' nl lens acc where
    a: "append_bonds (bonds u) (replicate n []) = Inr temp'" and
    w: "unwrap_bonds (zip [0..<n] temp') temp' (np_empty junk cap) (np_empty junk n) 0
          = Inr (nl, lens, acc)" and
    b: "b = self\<lparr>nlist_ready := True, nlist := take acc nl, nlist_lengths := lens\<rparr>"
    by (auto simp: Bond_build_nlist_def Let_def n_def cap_def split: sum.splits)
  have lt: "length temp' = n"
    using append_bonds_length[OF a] by simp
  note r = unwrap_bonds_result[OF w]
  have fsts: "fst ` set (zip [0..<n] temp') = {0..<n}"
    using lt by (metis atLeastLessThan_upt length_upt diff_zero map_fst_zip set_map)
  have snds: "map snd (zip [0..<n] temp') = temp'"
    using lt by (simp add: map_snd_zip)
  have acc: "acc = sum_list (map length temp')"
    using r snds by (metis add_0 map_map)
  have le: "acc \<le> length nl"
    using r by simp
  have ll: "length lens = n"
    using r by (simp add: np_empty_def)
  have "lens = map length temp'"
  proof (rule nth_equalityI)
    show "length lens = length (map length temp')" using ll lt by simp
  next
    fix k assume "k < length lens"
    then show "lens ! k = map length temp' ! k"
      using r fsts ll lt by (simp add: np_empty_def)
  qed
  then show ?thesis
    using b acc le ll by (simp add: n_def)
qed

lemma bond_step_ready:
  assumes "nlist_ready b" and "op \<noteq> Teardown" and "bond_step junk op b = Inr b'"
  shows "b' = b"
  using assms
  by (cases op)
     (auto simp: Bond_setup_def Bond_pair_exists_def split: sum.splits option.splits prod.splits)

lemma bond_run_ready:
  assumes "nlist_ready b" and "Teardown \<notin> set ops" and "bond_run junk ops b = Inr b'"
  shows "b' = b"
  using assms
proof (induction ops arbitrary: b)
  case Nil
  then show ?case by simp
next
  case (Cons op ops)
  from Cons.prems obtain b1 where s: "bond_step junk op b = Inr b1"
    and r: "bond_run junk ops b1 = Inr b'"
    by (auto split: sum.splits)
  from Cons.prems have "op \<noteq> Teardown" by auto
  with s Cons.prems have "b1 = b" using bond_step_ready by blast
  with Cons r show ?case by auto
qed

text \<open>
  C9: once \<^verbatim>\<open>Bond._build_nlist\<close> has built the structure on a frame of \<open>n\<close> particles,
  \<^verbatim>\<open>sum(nlist_lengths) == len(nlist)\<close> and \<^verbatim>\<open>len(nlist_lengths) == n\<close> hold, and they
  still hold after any run of operations on the category that has no teardown in it
  (the empty run is the state right after the build).
\<close>

theorem Bond_nlist_invariant:
  assumes "Bond_build_nlist junk u self = Inr b"
    and "Teardown \<notin> set ops"
    and "bond_run junk' ops b = Inr b'"
  shows "sum_list (nlist_lengths b') = length (nlist b')
         \<and> length (nlist_lengths b') = numberOfAtoms u"
proof -
  note r = Bond_build_nlist_result[OF assms(1)]
  then have "b' = b" using bond_run_ready assms(2,3) by blast
  with r show ?thesis by simp
qed

theorem Bond_nlist_invariant_witness:
  "Bond_build_nlist id
     \<lparr>positions = [(0, 0, 0), (1, 0, 0), (2, 0, 0), (3, 0, 0)], dimensions = (10, 10, 10),
      periodic = False, bonds = [(0, 1), (1, 2)], selections = []\<rparr>
     \<lparr>nlist_ready = False, nlist = [], nlist_lengths = []\<rparr>
     = Inr \<lparr>nlist_ready = True, nlist = [1, 0, 2, 1], nlist_lengths = [1, 2, 1, 0]\<rparr>
   \<and> Teardown \<notin> set [GenerateNlist 1, PairExists
     \<lparr>positions = [(0, 0, 0), (1, 0, 0), (2, 0, 0), (3, 0, 0)], dimensions = (10, 10, 10),
      periodic = False, bonds = [(0, 1), (1, 2)], selections = []\<rparr> ''type A'' ''type B'']
   \<and> bond_run id [GenerateNlist 1, PairExists
     \<lparr>positions = [(0, 0, 0), (1, 0, 0), (2, 0, 0), (3, 0, 0)], dimensions = (10, 10, 10),
      periodic = False, bonds = [(0, 1), (1, 2)], selections = []\<rparr> ''type A'' ''type B'']
     \<lparr>nlist_ready = True, nlist = [1, 0, 2, 1], nlist_lengths = [1, 2, 1, 0]\<rparr>
     = Inr \<lparr>nlist_ready = True, nlist = [1, 0, 2, 1], nlist_lengths = [1, 2, 1, 0]\<rparr>
   \<and> sum_list [1, 2, 1, 0 :: nat] = length [1, 0, 2, 1 :: nat]
   \<and> length [1, 2, 1, 0 :: nat] = numberOfAtoms
     \<lparr>positions = [(0, 0, 0), (1, 0, 0), (2, 0, 0), (3, 0, 0)], dimensions = (10, 10, 10),
      periodic = False, bonds = [(0, 1), (1, 2)], selections = []\<rparr>"
proof -
  have b: "Bond_build_nlist id
     \<lparr>positions = [(0, 0, 0), (1, 0, 0), (2, 0, 0), (3, 0, 0)], dimensions = (10, 10, 10),
      periodic = False, bonds = [(0, 1), (1, 2)], selections = []\<rparr>
     \<lparr>nlist_ready = False, nlist = [], nlist_lengths = []\<rparr>
     = Inr \<lparr>nlist_ready = True, nlist = [1, 0, 2, 1], nlist_lengths = [1, 2, 1, 0]\<rparr>"
    by (simp add: Bond_build_nlist_def numberOfAtoms_def np_empty_def upt_rec)
  have t: "Teardown \<notin> set [GenerateNlist 1, PairExists
     \<lparr>positions = [(0, 0, 0), (1, 0, 0), (2, 0, 0), (3, 0, 0)], dimensions = (10, 10, 10),
      periodic = False, bonds = [(0, 1), (1, 2)], selections = []\<rparr> ''type A'' ''type B'']"
    by simp
  have r: "bond_run id [GenerateNlist 1, PairExists
     \<lparr>positions = [(0, 0, 0), (1, 0, 0), (2, 0, 0), (3, 0, 0)], dimensions = (10, 10, 10),
      periodic = False, bonds = [(0, 1), (1, 2)], selections = []\<rparr> ''type A'' ''type B'']
     \<lparr>nlist_ready = True, nlist = [1, 0, 2, 1], nlist_lengths = [1, 2, 1, 0]\<rparr>
     = Inr \<lparr>nlist_ready = True, nlist = [1, 0, 2, 1], nlist_lengths = [1, 2, 1, 0]\<rparr>"
    by (simp add: generate_nlist_def Bond_pair_exists_def selectAtoms_def)
  from Bond_nlist_invariant[OF b t r] b t r show ?thesis
    by (simp add: numberOfAtoms_def)
qed

subsection \<open>Type selection of pairs\<close>

text \<open>
  C3: on an analysis without selectors, \<^verbatim>\<open>valid_pair\<close> is documented to return true.
  With \<^verbatim>\<open>sel1\<close> at \<^verbatim>\<open>None\<close> the first \<^verbatim>\<open>re.match(self.sel1, atom1)\<close> raises
  \<^verbatim>\<open>TypeError\<close>, which the handler for \<^verbatim>\<open>AttributeError\<close> does not catch: every call
  raises, whatever the atoms, the second selector and the matcher.
\<close>

theorem valid_pair_no_selectors_raises:
  "valid_pair rm (self\<lparr>sel1 := None\<rparr>) atom1 atom2 = Inl TypeError"
  by (simp add: valid_pair_def match_both_def re_match_def)

subsection \<open>The neighbour vectors of a particle\<close>

lemma norm3_zero_iff: "norm3 r = 0 \<longleftrightarrow> r = (0, 0, 0)"
proof (cases r)
  case (fields x y z)
  have "x * x + y * y + z * z = 0 \<longleftrightarrow> x = 0 \<and> y = 0 \<and> z = 0"
    by (auto simp: add_nonneg_eq_0_iff)
  then show ?thesis using fields by (simp add: norm3_def)
qed

lemma norm3_unit_direction:
  assumes "norm3 r \<noteq> 0"
  shows "norm3 (unit_direction r) = 1"
proof (cases r)
  case (fields x y z)
  define d where "d = norm3 r"
  have dd: "d * d = x * x + y * y + z * z"
    using fields by (simp add: d_def norm3_def)
  have "x / d * (x / d) + y / d * (y / d) + z / d * (z / d) = (x * x + y * y + z * z) / (d * d)"
    by (simp add: add_divide_distrib)
  also have "\<dots> = 1"
  proof -
    have "d \<noteq> 0" using assms by (simp add: d_def)
    then show ?thesis unfolding dd[symmetric] by simp
  qed
  finally have one: "x / d * (x / d) + y / d * (y / d) + z / d * (z / d) = 1" .
  have "unit_direction r = (x / d, y / d, z / d)"
    using assms fields by (simp add: unit_direction_def vdiv_def d_def)
  then have "norm3 (unit_direction r) = sqrt (x / d * (x / d) + y / d * (y / d) + z / d * (z / d))"
    by (simp add: norm3_def)
  then show ?thesis
    by (simp only: one real_sqrt_one)
qed

lemma neighbor_vecs_loop_spec:
  assumes "m \<noteq> []" and "i < length (positions u)"
    and "\<forall>j \<in> set js. j < length m \<and> j < length (positions u)"
  shows "neighbor_vecs_loop u i (Some m) js =
     (map (\<lambda>j. (unit_direction (displacement u i j), norm3 (displacement u i j), int j))
          (filter (\<lambda>j. m ! j) js), None)"
  using assms(3)
proof (induction js)
  case Nil
  then show ?case by simp
next
  case (Cons j js)
  then show ?case
    using assms(1,2)
    by (simp add: mask_skips_def Let_def displacement_def unit_direction_def norm3_zero_iff)
qed

text \<open>
  C5: for a ready category, a particle \<open>i\<close> of the frame, a mask with one entry per
  particle and neighbours that are particles of the frame, \<^verbatim>\<open>generate_neighbor_vecs\<close>
  raises nothing and yields, in the order of the slice, one triple per neighbour \<open>j\<close>
  with \<^verbatim>\<open>mask[j]\<close> true: the direction, the norm of the minimum-image displacement and
  \<open>j\<close>. The direction is the displacement divided by its norm, a vector of norm one,
  unless the distance is zero, where it is the zero vector.
\<close>

theorem generate_neighbor_vecs_spec:
  assumes "nlist_ready self"
    and "i < length (nlist_lengths self)"
    and "i < numberOfAtoms u"
    and "length m = numberOfAtoms u"
    and "\<forall>j \<in> set (slice_of self i). j < numberOfAtoms u"
  shows "generate_neighbor_vecs self i u (Some m) =
           (map (\<lambda>j. (unit_direction (displacement u i j), norm3 (displacement u i j), int j))
                (filter (\<lambda>j. m ! j) (slice_of self i)), None)
         \<and> (\<forall>j \<in> set (slice_of self i).
               (norm3 (displacement u i j) = 0 \<longrightarrow> unit_direction (displacement u i j) = (0, 0, 0))
             \<and> (norm3 (displacement u i j) \<noteq> 0 \<longrightarrow>
                  norm3 (unit_direction (displacement u i j)) = 1
                  \<and> unit_direction (displacement u i j)
                      = vdiv (displacement u i j) (norm3 (displacement u i j))))"
proof -
  have g: "generate_nlist self i = Inr (slice_of self i)"
    using assms(1,2) by (auto simp: generate_nlist_def slice_of_def)
  have ne: "m \<noteq> []" using assms(3,4) by auto
  have "neighbor_vecs_loop u i (Some m) (slice_of self i) =
     (map (\<lambda>j. (unit_direction (displacement u i j), norm3 (displacement u i j), int j))
          (filter (\<lambda>j. m ! j) (slice_of self i)), None)"
    using assms(3,4,5) by (intro neighbor_vecs_loop_spec[OF ne]) (auto simp: numberOfAtoms_def)
  then have first: "generate_neighbor_vecs self i u (Some m) =
           (map (\<lambda>j. (unit_direction (displacement u i j), norm3 (displacement u i j), int j))
                (filter (\<lambda>j. m ! j) (slice_of self i)), None)"
    using g by (simp add: generate_neighbor_vecs_def)
  have zero: "norm3 r = 0 \<Longrightarrow> unit_direction r = (0, 0, 0)" for r
    by (simp add: unit_direction_def)
  have unit: "norm3 r \<noteq> 0 \<Longrightarrow> unit_direction r = vdiv r (norm3 r)" for r
    by (simp add: unit_direction_def)
  show ?thesis
    using first zero unit norm3_unit_direction by blast
qed

theorem generate_neighbor_vecs_spec_witness:
  "generate_neighbor_vecs
       \<lparr>nlist_ready = True, nlist = [1, 0, 2, 1], nlist_lengths = [1, 2, 1]\<rparr> 1
       \<lparr>positions = [(0, 0, 0), (1, 0, 0), (2, 0, 0)], dimensions = (10, 10, 10),
        periodic = True, bonds = [], selections = []\<rparr> (Some [True, False, True])
     = ([((- 1, 0, 0), 1, 0), ((1, 0, 0), 1, 2)], None)
   \<and> slice_of
       \<lparr>nlist_ready = True, nlist = [1, 0, 2, 1], nlist_lengths = [1, 2, 1]\<rparr> 1 = [0, 2]"
proof -
  have sl: "slice_of
       \<lparr>nlist_ready = True, nlist = [1, 0, 2, 1], nlist_lengths = [1, 2, 1]\<rparr> 1 = [0, 2]"
    by (simp add: slice_of_def)
  have a: "nlist_ready
       \<lparr>nlist_ready = True, nlist = [1, 0, 2, 1], nlist_lengths = [1, 2, 1]\<rparr>"
    "1 < length (nlist_lengths
       \<lparr>nlist_ready = True, nlist = [1, 0, 2, 1], nlist_lengths = [1, 2, 1]\<rparr>)"
    "1 < numberOfAtoms
       \<lparr>positions = [(0, 0, 0), (1, 0, 0), (2, 0, 0)], dimensions = (10, 10, 10),
        periodic = True, bonds = [], selections = []\<rparr>"
    "length [True, False, True] = numberOfAtoms
       \<lparr>positions = [(0, 0, 0), (1, 0, 0), (2, 0, 0)], dimensions = (10, 10, 10),
        periodic = True, bonds = [], selections = []\<rparr>"
    by (simp_all add: numberOfAtoms_def)
  have b: "\<forall>j \<in> set (slice_of
       \<lparr>nlist_ready = True, nlist = [1, 0, 2, 1], nlist_lengths = [1, 2, 1]\<rparr> 1). j < numberOfAtoms
       \<lparr>positions = [(0, 0, 0), (1, 0, 0), (2, 0, 0)], dimensions = (10, 10, 10),
        periodic = True, bonds = [], selections = []\<rparr>"
    by (subst sl) (simp add: numberOfAtoms_def)
  from generate_neighbor_vecs_spec[OF a b] sl show ?thesis
    by (simp add: displacement_def unit_direction_def min_img_vec_def wrap_component_def
          norm3_def vdiv_def)
qed

subsection \<open>Reading masks and neighbours\<close>

lemma in_group_mask_get: "in_group m i \<longleftrightarrow> mask_get m i = Inr True"
  by (auto simp: in_group_def mask_get_def split: option.splits)

lemma choose_maskj_None:
  "choose_maskj self i = Inr None \<Longrightarrow>
     \<not> in_group (mask1 self) i \<and> \<not> in_group (mask2 self) i"
  by (auto simp: choose_maskj_def in_group_mask_get split: sum.splits bool.splits)

lemma choose_maskj_Some:
  "choose_maskj self i = Inr (Some m) \<Longrightarrow>
     (in_group (mask1 self) i \<or> in_group (mask2 self) i) \<and> m = complementary_mask self i"
  by (auto simp: choose_maskj_def in_group_mask_get complementary_mask_def
           split: sum.splits bool.splits)

lemma CN_count_loop_eq:
  "CN_count_loop i thr vs c = c + int (length (filter (\<lambda>(r, d, j). int i < j \<and> d < thr) vs))"
  by (induction i thr vs c rule: CN_count_loop.induct) auto

lemma CN_particles_eq:
  "CN_particles self u idx c count = Inr (c', count') \<Longrightarrow>
     c' = c + int (sum_list (map (\<lambda>i. length (filter (\<lambda>(r, d, j). int i < j \<and> d < r0 self)
                                   (neighbors_of self u i)))
                   (filter (\<lambda>i. in_group (mask1 self) i \<or> in_group (mask2 self) i) idx)))
     \<and> count' = count + int (length (filter (\<lambda>i. in_group (mask1 self) i \<or> in_group (mask2 self) i) idx))"
proof (induction idx arbitrary: c count)
  case Nil
  then show ?case by simp
next
  case (Cons i rest)
  show ?case
  proof (cases "choose_maskj self i")
    case (Inl e)
    with Cons.prems show ?thesis by simp
  next
    case (Inr mo)
    show ?thesis
    proof (cases mo)
      case None
      with Inr Cons.prems have "CN_particles self u rest c count = Inr (c', count')" by simp
      from Cons.IH[OF this] choose_maskj_None[of self i] Inr None show ?thesis by simp
    next
      case (Some m)
      with Inr have ch: "choose_maskj self i = Inr (Some m)" by simp
      note cm = choose_maskj_Some[OF ch]
      obtain vs e where g: "category_neighbor_vecs (category self) i u m = (vs, e)"
        by (cases "category_neighbor_vecs (category self) i u m")
      with ch Cons.prems have e: "e = None"
        and r: "CN_particles self u rest (CN_count_loop i (r0 self) vs c) (count + 1) = Inr (c', count')"
        by (auto split: option.splits)
      have vs: "neighbors_of self u i = vs"
        using g cm by (simp add: neighbors_of_def)
      from Cons.IH[OF r] cm vs show ?thesis
        by (simp add: CN_count_loop_eq)
    qed
  qed
qed

lemma norm3_nonneg: "0 \<le> norm3 r"
  by (cases r) (simp add: norm3_def)

lemma neighbor_vecs_loop_nonneg:
  "(r, d, j) \<in> set (fst (neighbor_vecs_loop u i msk js)) \<Longrightarrow> 0 \<le> d"
proof (induction js)
  case Nil
  then show ?case by simp
next
  case (Cons k js)
  then show ?case
    by (auto simp: Let_def norm3_nonneg split: sum.splits bool.splits if_splits prod.splits)
qed

lemma category_neighbor_vecs_nonneg:
  assumes "(r, d, j) \<in> set (fst (category_neighbor_vecs c i u msk))" and "0 \<le> j"
  shows "0 \<le> d"
  using assms
  by (cases c)
     (auto simp: generate_neighbor_vecs_def Global_generate_neighbor_vecs_def
           dest: neighbor_vecs_loop_nonneg split: sum.splits if_splits)

lemma slice_of_subset: "set (slice_of c i) \<subseteq> set (nlist c)"
  unfolding slice_of_def
  by (meson set_take_subset set_drop_subset subset_trans)

lemma generate_neighbor_vecs_ok:
  assumes "neighbor_structure_ok c (length (positions u))"
    and "i < length (positions u)" and "length m = length (positions u)"
  shows "generate_neighbor_vecs c i u (Some m) =
     (map (\<lambda>j. (unit_direction (displacement u i j), norm3 (displacement u i j), int j))
          (filter (\<lambda>j. m ! j) (slice_of c i)), None)"
proof -
  have g: "generate_nlist c i = Inr (slice_of c i)"
    using assms(1,2) by (auto simp: generate_nlist_def slice_of_def neighbor_structure_ok_def)
  have ne: "m \<noteq> []" using assms(2,3) by auto
  have "\<forall>j \<in> set (slice_of c i). j < length m \<and> j < length (positions u)"
    using assms(1,3) slice_of_subset[of c i]
    by (auto simp: neighbor_structure_ok_def list_all_iff)
  from neighbor_vecs_loop_spec[OF ne assms(2) this] g show ?thesis
    by (simp add: generate_neighbor_vecs_def)
qed

lemma generate_neighbor_vecs_pairs:
  assumes ok: "neighbor_structure_ok c (numberOfAtoms u)"
    and "i < numberOfAtoms u" and "length m = numberOfAtoms u"
  shows "snd (generate_neighbor_vecs c i u (Some m)) = None
      \<and> filter (\<lambda>(r, d, j). int i < j) (fst (generate_neighbor_vecs c i u (Some m))) =
         map (\<lambda>j. (unit_direction (displacement u i j), pair_distance u i j, int j))
             (filter (\<lambda>j. i < j \<and> in_group (Some m) j) (slice_of c i))"
proof -
  have inm: "\<forall>j \<in> set (slice_of c i). j < length m"
    using ok assms(3) slice_of_subset[of c i]
    by (auto simp: neighbor_structure_ok_def list_all_iff)
  have "filter (\<lambda>j. i < j) (filter (\<lambda>j. m ! j) (slice_of c i))
        = filter (\<lambda>j. i < j \<and> in_group (Some m) j) (slice_of c i)"
    using inm by (auto simp: in_group_def intro: filter_cong)
  then show ?thesis
    using generate_neighbor_vecs_ok[of c u i m] ok assms(2,3)
    by (simp add: numberOfAtoms_def filter_map comp_def pair_distance_def)
qed

lemma category_neighbor_vecs_ok:
  assumes "category_ok cat (numberOfAtoms u)"
    and "i < numberOfAtoms u" and "length m = numberOfAtoms u"
  shows "snd (category_neighbor_vecs cat i u (Some m)) = None
       \<and> filter (\<lambda>(r, d, j). int i < j) (fst (category_neighbor_vecs cat i u (Some m))) =
         map (\<lambda>j. (unit_direction (displacement u i j), pair_distance u i j, int j))
             (filter (\<lambda>j. i < j \<and> in_group (Some m) j) (listed_neighbors cat i))"
proof (cases cat)
  case NoCategory
  with assms show ?thesis by simp
next
  case (PairwiseRef c)
  with assms generate_neighbor_vecs_pairs[of c u i m] show ?thesis by simp
next
  case (BondRef c)
  with assms generate_neighbor_vecs_pairs[of c u i m] show ?thesis by simp
next
  case (GlobalRef v)
  with assms show ?thesis
    by (simp add: Global_generate_neighbor_vecs_def numberOfAtoms_def)
qed

lemma choose_maskj_ok:
  assumes "mask1 self = Some m1" and "mask2 self = Some m2"
    and "i < length m1" and "i < length m2"
  shows "choose_maskj self i =
     Inr (if in_group (mask1 self) i \<or> in_group (mask2 self) i
          then Some (complementary_mask self i) else None)"
  using assms by (simp add: choose_maskj_def mask_get_def in_group_def complementary_mask_def)

lemma complementary_mask_ok:
  assumes "mask1 self = Some m1" and "mask2 self = Some m2"
    and "length m1 = n" and "length m2 = n"
  shows "\<exists>m. complementary_mask self i = Some m \<and> length m = n"
  using assms by (simp add: complementary_mask_def)

lemma neighbors_of_pairs:
  assumes "mask1 self = Some m1" and "mask2 self = Some m2"
    and "length m1 = numberOfAtoms u" and "length m2 = numberOfAtoms u"
    and "category_ok (category self) (numberOfAtoms u)"
    and "i < numberOfAtoms u"
  shows "category_neighbor_vecs (category self) i u (complementary_mask self i)
           = (neighbors_of self u i, None)
       \<and> filter (\<lambda>(r, d, j). int i < j) (neighbors_of self u i) =
         map (\<lambda>j. (unit_direction (displacement u i j), pair_distance u i j, int j))
             (partners self i)"
proof -
  from complementary_mask_ok[OF assms(1-4)] obtain m where
    m: "complementary_mask self i = Some m" "length m = numberOfAtoms u" by blast
  from category_neighbor_vecs_ok[OF assms(5,6) m(2)] m(1) show ?thesis
    by (simp add: neighbors_of_def partners_def prod_eq_iff)
qed

lemma length_filter_pairs:
  "length (filter (\<lambda>(i, j). P i j) (concat (map (\<lambda>i. map (Pair i) (xs i)) cs)))
     = sum_list (map (\<lambda>i. length (filter (P i) (xs i))) cs)"
  by (induction cs) (simp_all add: filter_map comp_def)

lemma map_pairs:
  "map (\<lambda>(i, j). f i j) (concat (map (\<lambda>i. map (Pair i) (xs i)) cs))
     = concat (map (\<lambda>i. map (f i) (xs i)) cs)"
  by (induction cs) simp_all

lemma count_near_pairs:
  assumes "filter (\<lambda>(r, d, j). int i < j) vs =
         map (\<lambda>j. (unit_direction (displacement u i j), pair_distance u i j, int j)) ps"
  shows "length (filter (\<lambda>(r, d, j). int i < j \<and> d < thr) vs)
         = length (filter (\<lambda>j. pair_distance u i j < thr) ps)"
proof -
  have "filter (\<lambda>(r, d, j). int i < j \<and> d < thr) vs
        = filter (\<lambda>(r, d, j). d < thr) (filter (\<lambda>(r, d, j). int i < j) vs)"
    by (induction vs) auto
  then show ?thesis
    unfolding assms by (simp add: filter_map comp_def)
qed

lemmas eval_defs =
  numberOfAtoms_def upt_rec choose_maskj_def mask_get_def category_neighbor_vecs.simps
  generate_neighbor_vecs_def generate_nlist_def mask_skips_def min_img_vec_def
  wrap_component_def norm3_def vdiv_def

lemmas spec_eval_defs =
  contributing_def in_group_def complementary_mask_def pairs_of_def partners_def
  listed_neighbors.simps slice_of_def pair_distance_def displacement_def
  category_ok.simps neighbor_structure_ok_def

subsection \<open>The coordination number\<close>

lemma CN_particles_ok:
  assumes "mask1 self = Some m1" and "mask2 self = Some m2"
    and "length m1 = numberOfAtoms u" and "length m2 = numberOfAtoms u"
    and "category_ok (category self) (numberOfAtoms u)"
    and "\<forall>i \<in> set idx. i < numberOfAtoms u"
  shows "CN_particles self u idx c k =
     Inr (c + int (sum_list (map (\<lambda>i. length (filter (\<lambda>j. pair_distance u i j < r0 self)
                                                   (partners self i)))
                     (filter (\<lambda>i. in_group (mask1 self) i \<or> in_group (mask2 self) i) idx))),
          k + int (length (filter (\<lambda>i. in_group (mask1 self) i \<or> in_group (mask2 self) i) idx)))"
  using assms(6)
proof (induction idx arbitrary: c k)
  case Nil
  then show ?case by simp
next
  case (Cons i rest)
  then have i: "i < numberOfAtoms u" and rest: "\<forall>i \<in> set rest. i < numberOfAtoms u"
    by simp_all
  have ch: "choose_maskj self i =
     Inr (if in_group (mask1 self) i \<or> in_group (mask2 self) i
          then Some (complementary_mask self i) else None)"
    using choose_maskj_ok[OF assms(1,2)] assms(3,4) i by simp
  note np = neighbors_of_pairs[OF assms(1-5) i]
  show ?case
  proof (cases "in_group (mask1 self) i \<or> in_group (mask2 self) i")
    case False
    with ch Cons.IH[OF rest] show ?thesis by simp
  next
    case True
    have cnt: "CN_count_loop i (r0 self) (neighbors_of self u i) c
           = c + int (length (filter (\<lambda>j. pair_distance u i j < r0 self) (partners self i)))"
      using count_near_pairs[OF np[THEN conjunct2]] by (simp add: CN_count_loop_eq)
    show ?thesis
      using True ch np[THEN conjunct1] Cons.IH[OF rest] cnt by simp
  qed
qed

text \<open>
  C7: on a frame whose particles all have an entry in both masks, with a category that is
  ready for the frame and at least one contributing particle, \<^verbatim>\<open>CoordNumber.do_update\<close>
  returns, and what it stores is twice the quotient (a division of floats) of the number
  of counted pairs by the number of contributing particles; nothing else of the object
  changes. The counted pairs are the pairs \<open>i < j\<close> of a contributing particle and a
  listed neighbour in the group it looks in, at a minimum-image distance below \<open>r0\<close>.
\<close>

theorem CoordNumber_do_update_value:
  assumes "mask1 self = Some m1" and "mask2 self = Some m2"
    and "length m1 = numberOfAtoms u" and "length m2 = numberOfAtoms u"
    and "category_ok (category self) (numberOfAtoms u)"
    and "contributing self u \<noteq> []"
  shows "CoordNumber_do_update fdiv self u =
     Inr (self\<lparr>cn := Some (2 * fdiv (real (counted_pairs self u))
                                    (real (length (contributing self u))))\<rparr>)"
proof -
  have "\<forall>i \<in> set [0..<numberOfAtoms u]. i < numberOfAtoms u" by simp
  from CN_particles_ok[OF assms(1-5) this, of 0 0]
  have p: "CN_particles self u [0..<numberOfAtoms u] 0 0 =
     Inr (int (counted_pairs self u), int (length (contributing self u)))"
    by (simp add: counted_pairs_def pairs_of_def contributing_def length_filter_pairs)
  show ?thesis
    using p assms(6) by (simp add: CoordNumber_do_update_def)
qed

theorem CoordNumber_do_update_value_witness:
  "CoordNumber_do_update (/)
       \<lparr>category = PairwiseRef \<lparr>nlist_ready = True, nlist = [1, 0, 2, 1, 3, 2],
                                  nlist_lengths = [1, 2, 2, 1], cutoff = 3 / 2\<rparr>,
        period = 2, outfile = Some (Path ''cn.txt''), update_counts = 0,
        sel1 = None, sel2 = None, mask1 = Some [True, True, False, False],
        mask2 = Some [False, True, True, False], cn_cutoff = 3 / 2, r0 = 3 / 2, cn = None\<rparr>
       \<lparr>positions = [(0, 0, 0), (1, 0, 0), (2, 0, 0), (3, 0, 0)], dimensions = (10, 10, 10),
        periodic = True, bonds = [], selections = []\<rparr>
     = Inr \<lparr>category = PairwiseRef \<lparr>nlist_ready = True, nlist = [1, 0, 2, 1, 3, 2],
                                  nlist_lengths = [1, 2, 2, 1], cutoff = 3 / 2\<rparr>,
        period = 2, outfile = Some (Path ''cn.txt''), update_counts = 0,
        sel1 = None, sel2 = None, mask1 = Some [True, True, False, False],
        mask2 = Some [False, True, True, False], cn_cutoff = 3 / 2, r0 = 3 / 2, cn = Some (4 / 3)\<rparr>
   \<and> contributing
       \<lparr>category = PairwiseRef \<lparr>nlist_ready = True, nlist = [1, 0, 2, 1, 3, 2],
                                  nlist_lengths = [1, 2, 2, 1], cutoff = 3 / 2\<rparr>,
        period = 2, outfile = Some (Path ''cn.txt''), update_counts = 0,
        sel1 = None, sel2 = None, mask1 = Some [True, True, False, False],
        mask2 = Some [False, True, True, False], cn_cutoff = 3 / 2, r0 = 3 / 2, cn = None\<rparr>
       \<lparr>positions = [(0, 0, 0), (1, 0, 0), (2, 0, 0), (3, 0, 0)], dimensions = (10, 10, 10),
        periodic = True, bonds = [], selections = []\<rparr> = [0, 1, 2]
   \<and> counted_pairs
       \<lparr>category = PairwiseRef \<lparr>nlist_ready = True, nlist = [1, 0, 2, 1, 3, 2],
                                  nlist_lengths = [1, 2, 2, 1], cutoff = 3 / 2\<rparr>,
        period = 2, outfile = Some (Path ''cn.txt''), update_counts = 0,
        sel1 = None, sel2 = None, mask1 = Some [True, True, False, False],
        mask2 = Some [False, True, True, False], cn_cutoff = 3 / 2, r0 = 3 / 2, cn = None\<rparr>
       \<lparr>positions = [(0, 0, 0), (1, 0, 0), (2, 0, 0), (3, 0, 0)], dimensions = (10, 10, 10),
        periodic = True, bonds = [], selections = []\<rparr> = 2"
proof -
  have c: "contributing
       \<lparr>category = PairwiseRef \<lparr>nlist_ready = True, nlist = [1, 0, 2, 1, 3, 2],
                                  nlist_lengths = [1, 2, 2, 1], cutoff = 3 / 2\<rparr>,
        period = 2, outfile = Some (Path ''cn.txt''), update_counts = 0,
        sel1 = None, sel2 = None, mask1 = Some [True, True, False, False],
        mask2 = Some [False, True, True, False], cn_cutoff = 3 / 2, r0 = 3 / 2, cn = None\<rparr>
       \<lparr>positions = [(0, 0, 0), (1, 0, 0), (2, 0, 0), (3, 0, 0)], dimensions = (10, 10, 10),
        periodic = True, bonds = [], selections = []\<rparr> = [0, 1, 2]"
    by (simp add: spec_eval_defs eval_defs)
  have p: "counted_pairs
       \<lparr>category = PairwiseRef \<lparr>nlist_ready = True, nlist = [1, 0, 2, 1, 3, 2],
                                  nlist_lengths = [1, 2, 2, 1], cutoff = 3 / 2\<rparr>,
        period = 2, outfile = Some (Path ''cn.txt''), update_counts = 0,
        sel1 = None, sel2 = None, mask1 = Some [True, True, False, False],
        mask2 = Some [False, True, True, False], cn_cutoff = 3 / 2, r0 = 3 / 2, cn = None\<rparr>
       \<lparr>positions = [(0, 0, 0), (1, 0, 0), (2, 0, 0), (3, 0, 0)], dimensions = (10, 10, 10),
        periodic = True, bonds = [], selections = []\<rparr> = 2"
    by (simp add: counted_pairs_def spec_eval_defs eval_defs)
  have ok: "category_ok (category
       \<lparr>category = PairwiseRef \<lparr>nlist_ready = True, nlist = [1, 0, 2, 1, 3, 2],
                                  nlist_lengths = [1, 2, 2, 1], cutoff = 3 / 2\<rparr>,
        period = 2, outfile = Some (Path ''cn.txt''), update_counts = 0,
        sel1 = None, sel2 = None, mask1 = Some [True, True, False, False],
        mask2 = Some [False, True, True, False], cn_cutoff = 3 / 2, r0 = 3 / 2, cn = None\<rparr>) (numberOfAtoms
       \<lparr>positions = [(0, 0, 0), (1, 0, 0), (2, 0, 0), (3, 0, 0)], dimensions = (10, 10, 10),
        periodic = True, bonds = [], selections = []\<rparr>)"
    by (simp add: spec_eval_defs eval_defs)
  have e: "CoordNumber_do_update (/)
       \<lparr>category = PairwiseRef \<lparr>nlist_ready = True, nlist = [1, 0, 2, 1, 3, 2],
                                  nlist_lengths = [1, 2, 2, 1], cutoff = 3 / 2\<rparr>,
        period = 2, outfile = Some (Path ''cn.txt''), update_counts = 0,
        sel1 = None, sel2 = None, mask1 = Some [True, True, False, False],
        mask2 = Some [False, True, True, False], cn_cutoff = 3 / 2, r0 = 3 / 2, cn = None\<rparr>
       \<lparr>positions = [(0, 0, 0), (1, 0, 0), (2, 0, 0), (3, 0, 0)], dimensions = (10, 10, 10),
        periodic = True, bonds = [], selections = []\<rparr>
     = Inr \<lparr>category = PairwiseRef \<lparr>nlist_ready = True, nlist = [1, 0, 2, 1, 3, 2],
                                  nlist_lengths = [1, 2, 2, 1], cutoff = 3 / 2\<rparr>,
        period = 2, outfile = Some (Path ''cn.txt''), update_counts = 0,
        sel1 = None, sel2 = None, mask1 = Some [True, True, False, False],
        mask2 = Some [False, True, True, False], cn_cutoff = 3 / 2, r0 = 3 / 2, cn = Some (4 / 3)\<rparr>"
    using CoordNumber_do_update_value
      [of "\<lparr>category = PairwiseRef \<lparr>nlist_ready = True, nlist = [1, 0, 2, 1, 3, 2],
                                  nlist_lengths = [1, 2, 2, 1], cutoff = 3 / 2\<rparr>,
        period = 2, outfile = Some (Path ''cn.txt''), update_counts = 0,
        sel1 = None, sel2 = None, mask1 = Some [True, True, False, False],
        mask2 = Some [False, True, True, False], cn_cutoff = 3 / 2, r0 = 3 / 2, cn = None\<rparr>" "[True, True, False, False]" "[False, True, True, False]"
          "\<lparr>positions = [(0, 0, 0), (1, 0, 0), (2, 0, 0), (3, 0, 0)], dimensions = (10, 10, 10),
        periodic = True, bonds = [], selections = []\<rparr>" "(/)"] ok c p
    by (simp add: numberOfAtoms_def)
  from e c p show ?thesis by simp
qed

text \<open>
  C10: \<^verbatim>\<open>CoordNumber.do_update\<close> cannot return on a frame without a contributing
  particle; where the masks of both groups are false at every particle (a frame without
  particles included), \<^verbatim>\<open>count\<close> is still zero at line 164 and the call raises
  \<^verbatim>\<open>ZeroDivisionError\<close>.
\<close>

theorem CoordNumber_do_update_zero_division:
  "(contributing self u = [] \<longrightarrow> CoordNumber_do_update fdiv self u \<noteq> Inr self')
   \<and> ((\<forall>i < numberOfAtoms u.
          mask_get (mask1 self) i = Inr False \<and> mask_get (mask2 self) i = Inr False)
        \<longrightarrow> CoordNumber_do_update fdiv self u = Inl ZeroDivisionError)"
proof (intro conjI impI)
  assume e: "contributing self u = []"
  show "CoordNumber_do_update fdiv self u \<noteq> Inr self'"
  proof
    assume "CoordNumber_do_update fdiv self u = Inr self'"
    then obtain c count where
      p: "CN_particles self u [0..<numberOfAtoms u] 0 0 = Inr (c, count)" and nz: "count \<noteq> 0"
      by (auto simp: CoordNumber_do_update_def split: sum.splits if_splits)
    from CN_particles_eq[OF p] e have "count = 0"
      by (simp add: contributing_def)
    with nz show False by simp
  qed
next
  assume a: "\<forall>i < numberOfAtoms u.
          mask_get (mask1 self) i = Inr False \<and> mask_get (mask2 self) i = Inr False"
  have "\<forall>i \<in> set idx. mask_get (mask1 self) i = Inr False \<and> mask_get (mask2 self) i = Inr False
        \<Longrightarrow> CN_particles self u idx c count = Inr (c, count)" for idx c count
    by (induction idx) (auto simp: choose_maskj_def)
  from this[of "[0..<numberOfAtoms u]" 0 0] a
  show "CoordNumber_do_update fdiv self u = Inl ZeroDivisionError"
    by (simp add: CoordNumber_do_update_def)
qed

theorem CoordNumber_do_update_zero_division_witness:
  "contributing
       \<lparr>category = PairwiseRef \<lparr>nlist_ready = True, nlist = [1, 0, 2, 1, 3, 2],
                                  nlist_lengths = [1, 2, 2, 1], cutoff = 3 / 2\<rparr>,
        period = 1, outfile = Some (Path ''cn.txt''), update_counts = 0,
        sel1 = None, sel2 = None, mask1 = Some [False, False, False, False],
        mask2 = Some [False, False, False, False], cn_cutoff = 3 / 2, r0 = 3 / 2,
        cn = None\<rparr>
       \<lparr>positions = [(0, 0, 0), (1, 0, 0), (2, 0, 0), (3, 0, 0)], dimensions = (10, 10, 10),
        periodic = True, bonds = [], selections = []\<rparr> = []
   \<and> CoordNumber_do_update (/)
       \<lparr>category = PairwiseRef \<lparr>nlist_ready = True, nlist = [1, 0, 2, 1, 3, 2],
                                  nlist_lengths = [1, 2, 2, 1], cutoff = 3 / 2\<rparr>,
        period = 1, outfile = Some (Path ''cn.txt''), update_counts = 0,
        sel1 = None, sel2 = None, mask1 = Some [False, False, False, False],
        mask2 = Some [False, False, False, False], cn_cutoff = 3 / 2, r0 = 3 / 2,
        cn = None\<rparr>
       \<lparr>positions = [(0, 0, 0), (1, 0, 0), (2, 0, 0), (3, 0, 0)], dimensions = (10, 10, 10),
        periodic = True, bonds = [], selections = []\<rparr>
     = Inl ZeroDivisionError"
proof -
  have c: "contributing
       \<lparr>category = PairwiseRef \<lparr>nlist_ready = True, nlist = [1, 0, 2, 1, 3, 2],
                                  nlist_lengths = [1, 2, 2, 1], cutoff = 3 / 2\<rparr>,
        period = 1, outfile = Some (Path ''cn.txt''), update_counts = 0,
        sel1 = None, sel2 = None, mask1 = Some [False, False, False, False],
        mask2 = Some [False, False, False, False], cn_cutoff = 3 / 2, r0 = 3 / 2,
        cn = None\<rparr>
       \<lparr>positions = [(0, 0, 0), (1, 0, 0), (2, 0, 0), (3, 0, 0)], dimensions = (10, 10, 10),
        periodic = True, bonds = [], selections = []\<rparr> = []"
    by (simp add: spec_eval_defs eval_defs)
  have "\<forall>i < numberOfAtoms
       \<lparr>positions = [(0, 0, 0), (1, 0, 0), (2, 0, 0), (3, 0, 0)], dimensions = (10, 10, 10),
        periodic = True, bonds = [], selections = []\<rparr>.
      mask_get (mask1
       \<lparr>category = PairwiseRef \<lparr>nlist_ready = True, nlist = [1, 0, 2, 1, 3, 2],
                                  nlist_lengths = [1, 2, 2, 1], cutoff = 3 / 2\<rparr>,
        period = 1, outfile = Some (Path ''cn.txt''), update_counts = 0,
        sel1 = None, sel2 = None, mask1 = Some [False, False, False, False],
        mask2 = Some [False, False, False, False], cn_cutoff = 3 / 2, r0 = 3 / 2,
        cn = None\<rparr>) i = Inr False
      \<and> mask_get (mask2
       \<lparr>category = PairwiseRef \<lparr>nlist_ready = True, nlist = [1, 0, 2, 1, 3, 2],
                                  nlist_lengths = [1, 2, 2, 1], cutoff = 3 / 2\<rparr>,
        period = 1, outfile = Some (Path ''cn.txt''), update_counts = 0,
        sel1 = None, sel2 = None, mask1 = Some [False, False, False, False],
        mask2 = Some [False, False, False, False], cn_cutoff = 3 / 2, r0 = 3 / 2,
        cn = None\<rparr>) i = Inr False"
    by (simp add: numberOfAtoms_def mask_get_def nth_Cons split: nat.splits)
  with CoordNumber_do_update_zero_division c show ?thesis by blast
qed

subsection \<open>The radial distribution histogram\<close>

lemma RDF_bin_loop_counts:
  assumes "0 < bs" and "\<forall>x y. 0 \<le> x \<longrightarrow> 0 < y \<longrightarrow> 0 \<le> fdiv x y"
    and "\<forall>(r, d, j) \<in> set vs. int i < j \<longrightarrow> 0 \<le> d"
  shows "\<exists>h'. RDF_bin_loop fdiv i bs vs h = Inr h' \<and> length h' = length h
           \<and> (\<forall>b < length h. h' ! b = h ! b
                 + int (count_list (map (\<lambda>(r, d, j). \<lfloor>fdiv d bs\<rfloor>)
                                        (filter (\<lambda>(r, d, j). int i < j) vs)) (int b)))"
  using assms(3)
proof (induction vs arbitrary: h)
  case Nil
  then show ?case by simp
next
  case (Cons v vs)
  obtain r d j where v: "v = (r, d, j)" by (cases v)
  from Cons.prems have rest: "\<forall>(r, d, j) \<in> set vs. int i < j \<longrightarrow> 0 \<le> d" by simp
  show ?case
  proof (cases "int i < j")
    case False
    with Cons.IH[OF rest, of h] v show ?thesis by simp
  next
    case True
    with Cons.prems v have d: "0 \<le> d" by simp
    then have b0: "0 \<le> \<lfloor>fdiv d bs\<rfloor>" using assms(1,2) by simp
    show ?thesis
    proof (cases "\<lfloor>fdiv d bs\<rfloor> < int (length h)")
      case False
      then have "\<forall>b < length h. int b \<noteq> \<lfloor>fdiv d bs\<rfloor>" by auto
      with Cons.IH[OF rest, of h] v True False assms(1) show ?thesis
        by (auto simp: Let_def)
    next
      case lt: True
      define k where "k = nat \<lfloor>fdiv d bs\<rfloor>"
      have k: "k < length h" "int k = \<lfloor>fdiv d bs\<rfloor>"
        using b0 lt unfolding k_def by linarith+
      have hi: "hist_incr h \<lfloor>fdiv d bs\<rfloor> = Inr (h[k := h ! k + 1])"
        using b0 lt unfolding hist_incr_def k_def Let_def by auto
      from Cons.IH[OF rest, of "h[k := h ! k + 1]"] obtain h' where
        h': "RDF_bin_loop fdiv i bs vs (h[k := h ! k + 1]) = Inr h'"
        "length h' = length h"
        "\<forall>b < length h. h' ! b = (h[k := h ! k + 1]) ! b
                 + int (count_list (map (\<lambda>(r, d, j). \<lfloor>fdiv d bs\<rfloor>)
                                        (filter (\<lambda>(r, d, j). int i < j) vs)) (int b))"
        by auto
      have "RDF_bin_loop fdiv i bs (v # vs) h = Inr h'"
        using v True lt hi h'(1) assms(1) by (simp add: Let_def)
      moreover have "\<forall>b < length h. h' ! b = h ! b
                 + int (count_list (map (\<lambda>(r, d, j). \<lfloor>fdiv d bs\<rfloor>)
                                        (filter (\<lambda>(r, d, j). int i < j) (v # vs))) (int b))"
        using h'(3) v True k by (auto simp: nth_list_update)
      ultimately show ?thesis using h'(2) by simp
    qed
  qed
qed

lemma RDF_particles_ok:
  assumes "0 < binsize self" and sign: "\<forall>x y. 0 \<le> x \<longrightarrow> 0 < y \<longrightarrow> 0 \<le> fdiv x y"
    and "mask1 self = Some m1" and "mask2 self = Some m2"
    and "length m1 = numberOfAtoms u" and "length m2 = numberOfAtoms u"
    and "category_ok (category self) (numberOfAtoms u)"
    and "\<forall>i \<in> set idx. i < numberOfAtoms u"
  shows "\<exists>h'. RDF_particles fdiv self u idx h = Inr h' \<and> length h' = length h
         \<and> (\<forall>b < length h. h' ! b = h ! b
               + int (count_list
                   (concat (map (\<lambda>i. map (\<lambda>j. \<lfloor>fdiv (pair_distance u i j) (binsize self)\<rfloor>)
                                          (partners self i))
                     (filter (\<lambda>i. in_group (mask1 self) i \<or> in_group (mask2 self) i) idx)))
                   (int b)))"
  using assms(8)
proof (induction idx arbitrary: h)
  case Nil
  then show ?case by simp
next
  case (Cons i rest)
  then have i: "i < numberOfAtoms u" and rest: "\<forall>i \<in> set rest. i < numberOfAtoms u"
    by simp_all
  have ch: "choose_maskj self i =
     Inr (if in_group (mask1 self) i \<or> in_group (mask2 self) i
          then Some (complementary_mask self i) else None)"
    using choose_maskj_ok[OF assms(3,4)] assms(5,6) i by simp
  show ?case
  proof (cases "in_group (mask1 self) i \<or> in_group (mask2 self) i")
    case False
    with ch Cons.IH[OF rest, of h] show ?thesis by simp
  next
    case True
    note np = neighbors_of_pairs[OF assms(3-7) i]
    have nn: "\<forall>(r, d, j) \<in> set (neighbors_of self u i). int i < j \<longrightarrow> 0 \<le> d"
      using category_neighbor_vecs_nonneg[of _ _ _ "category self" i u "complementary_mask self i"]
      by (fastforce simp: neighbors_of_def)
    have bins: "map (\<lambda>(r, d, j). \<lfloor>fdiv d (binsize self)\<rfloor>)
                    (filter (\<lambda>(r, d, j). int i < j) (neighbors_of self u i))
                = map (\<lambda>j. \<lfloor>fdiv (pair_distance u i j) (binsize self)\<rfloor>) (partners self i)"
      unfolding np[THEN conjunct2] by (simp add: comp_def)
    from RDF_bin_loop_counts[OF assms(1) sign nn, where h = h] obtain h1 where
      h1: "RDF_bin_loop fdiv i (binsize self) (neighbors_of self u i) h = Inr h1"
      "length h1 = length h"
      "\<forall>b < length h. h1 ! b = h ! b
         + int (count_list (map (\<lambda>j. \<lfloor>fdiv (pair_distance u i j) (binsize self)\<rfloor>)
                                (partners self i)) (int b))"
      unfolding bins by blast
    from Cons.IH[OF rest, of h1] obtain h' where
      h': "RDF_particles fdiv self u rest h1 = Inr h'" "length h' = length h1"
      "\<forall>b < length h1. h' ! b = h1 ! b
               + int (count_list
                   (concat (map (\<lambda>i. map (\<lambda>j. \<lfloor>fdiv (pair_distance u i j) (binsize self)\<rfloor>)
                                          (partners self i))
                     (filter (\<lambda>i. in_group (mask1 self) i \<or> in_group (mask2 self) i) rest)))
                   (int b))"
      by blast
    have "RDF_particles fdiv self u (i # rest) h = Inr h'"
      using True ch np[THEN conjunct1] h1(1) h'(1) by (simp add: RDF_neighbors_def)
    then show ?thesis
      using True h1(2,3) h'(2,3) by (simp add: add.assoc)
  qed
qed

text \<open>
  C6: for a positive bin size, on a frame whose particles all have an entry in both masks
  and with a category that is ready for the frame, \<^verbatim>\<open>RDF.do_update\<close> returns and only
  the histogram changes: it keeps its length, and every bin \<open>b\<close> within its range grows
  by the number of pairs whose \<open>floor(distance / binsize)\<close> is \<open>b\<close>. The pairs are those
  of a contributing particle \<open>i\<close> and a listed neighbour \<open>j > i\<close> in the group \<open>i\<close> looks
  in: a particle in neither group is skipped, a particle of group 1 looks in group 2 and
  a particle of group 2 alone in group 1; a pair whose bin is beyond the range changes
  nothing. The division of floats keeps the sign: a non-negative distance divided by a
  positive bin size is not negative.
\<close>

theorem RDF_do_update_histogram:
  assumes "0 < binsize self"
    and "\<forall>x y. 0 \<le> x \<longrightarrow> 0 < y \<longrightarrow> 0 \<le> fdiv x y"
    and "mask1 self = Some m1" and "mask2 self = Some m2"
    and "length m1 = numberOfAtoms u" and "length m2 = numberOfAtoms u"
    and "category_ok (category self) (numberOfAtoms u)"
  shows "RDF_do_update fdiv self u =
     Inr (self\<lparr>hist := map (\<lambda>b. hist self ! b
                                 + int (count_list (rdf_bins fdiv self u) (int b)))
                            [0..<length (hist self)]\<rparr>)"
proof -
  have "\<forall>i \<in> set [0..<numberOfAtoms u]. i < numberOfAtoms u" by simp
  from RDF_particles_ok[OF assms this, where h = "hist self"] obtain h' where
    h': "RDF_particles fdiv self u [0..<numberOfAtoms u] (hist self) = Inr h'"
    "length h' = length (hist self)"
    "\<forall>b < length (hist self). h' ! b = hist self ! b
         + int (count_list (rdf_bins fdiv self u) (int b))"
    by (auto simp: rdf_bins_def pairs_of_def contributing_def map_pairs)
  have "h' = map (\<lambda>b. hist self ! b + int (count_list (rdf_bins fdiv self u) (int b)))
                 [0..<length (hist self)]"
    using h'(2,3) by (intro nth_equalityI) simp_all
  with h'(1) show ?thesis
    by (simp add: RDF_do_update_def)
qed

theorem RDF_do_update_histogram_witness:
  "RDF_do_update (/)
       \<lparr>category = PairwiseRef \<lparr>nlist_ready = True, nlist = [1, 2, 3, 0, 2, 3, 0, 1, 0, 1],
                                  nlist_lengths = [3, 3, 2, 2], cutoff = 2\<rparr>,
        period = 1, outfile = Some (Path ''rdf.txt''), update_counts = 0,
        sel1 = None, sel2 = None, mask1 = Some [True, False, False, False],
        mask2 = Some [False, True, False, True], hist = [0, 0], binsize = 1,
        rdf_cutoff = 2\<rparr>
       \<lparr>positions = [(0, 0, 0), (1, 0, 0), (0, 1, 0), (2, 0, 0)], dimensions = (10, 10, 10),
        periodic = False, bonds = [], selections = []\<rparr>
     = Inr \<lparr>category = PairwiseRef \<lparr>nlist_ready = True, nlist = [1, 2, 3, 0, 2, 3, 0, 1, 0, 1],
                                  nlist_lengths = [3, 3, 2, 2], cutoff = 2\<rparr>,
        period = 1, outfile = Some (Path ''rdf.txt''), update_counts = 0,
        sel1 = None, sel2 = None, mask1 = Some [True, False, False, False],
        mask2 = Some [False, True, False, True], hist = [0, 1], binsize = 1,
        rdf_cutoff = 2\<rparr>
   \<and> contributing
       \<lparr>category = PairwiseRef \<lparr>nlist_ready = True, nlist = [1, 2, 3, 0, 2, 3, 0, 1, 0, 1],
                                  nlist_lengths = [3, 3, 2, 2], cutoff = 2\<rparr>,
        period = 1, outfile = Some (Path ''rdf.txt''), update_counts = 0,
        sel1 = None, sel2 = None, mask1 = Some [True, False, False, False],
        mask2 = Some [False, True, False, True], hist = [0, 0], binsize = 1,
        rdf_cutoff = 2\<rparr>
       \<lparr>positions = [(0, 0, 0), (1, 0, 0), (0, 1, 0), (2, 0, 0)], dimensions = (10, 10, 10),
        periodic = False, bonds = [], selections = []\<rparr> = [0, 1, 3]
   \<and> rdf_bins (/)
       \<lparr>category = PairwiseRef \<lparr>nlist_ready = True, nlist = [1, 2, 3, 0, 2, 3, 0, 1, 0, 1],
                                  nlist_lengths = [3, 3, 2, 2], cutoff = 2\<rparr>,
        period = 1, outfile = Some (Path ''rdf.txt''), update_counts = 0,
        sel1 = None, sel2 = None, mask1 = Some [True, False, False, False],
        mask2 = Some [False, True, False, True], hist = [0, 0], binsize = 1,
        rdf_cutoff = 2\<rparr>
       \<lparr>positions = [(0, 0, 0), (1, 0, 0), (0, 1, 0), (2, 0, 0)], dimensions = (10, 10, 10),
        periodic = False, bonds = [], selections = []\<rparr> = [1, 2]"
proof -
  have c: "contributing
       \<lparr>category = PairwiseRef \<lparr>nlist_ready = True, nlist = [1, 2, 3, 0, 2, 3, 0, 1, 0, 1],
                                  nlist_lengths = [3, 3, 2, 2], cutoff = 2\<rparr>,
        period = 1, outfile = Some (Path ''rdf.txt''), update_counts = 0,
        sel1 = None, sel2 = None, mask1 = Some [True, False, False, False],
        mask2 = Some [False, True, False, True], hist = [0, 0], binsize = 1,
        rdf_cutoff = 2\<rparr>
       \<lparr>positions = [(0, 0, 0), (1, 0, 0), (0, 1, 0), (2, 0, 0)], dimensions = (10, 10, 10),
        periodic = False, bonds = [], selections = []\<rparr> = [0, 1, 3]"
    by (simp add: spec_eval_defs eval_defs)
  have b: "rdf_bins (/)
       \<lparr>category = PairwiseRef \<lparr>nlist_ready = True, nlist = [1, 2, 3, 0, 2, 3, 0, 1, 0, 1],
                                  nlist_lengths = [3, 3, 2, 2], cutoff = 2\<rparr>,
        period = 1, outfile = Some (Path ''rdf.txt''), update_counts = 0,
        sel1 = None, sel2 = None, mask1 = Some [True, False, False, False],
        mask2 = Some [False, True, False, True], hist = [0, 0], binsize = 1,
        rdf_cutoff = 2\<rparr>
       \<lparr>positions = [(0, 0, 0), (1, 0, 0), (0, 1, 0), (2, 0, 0)], dimensions = (10, 10, 10),
        periodic = False, bonds = [], selections = []\<rparr> = [1, 2]"
    by (simp add: rdf_bins_def spec_eval_defs eval_defs)
  have ok: "category_ok (category
       \<lparr>category = PairwiseRef \<lparr>nlist_ready = True, nlist = [1, 2, 3, 0, 2, 3, 0, 1, 0, 1],
                                  nlist_lengths = [3, 3, 2, 2], cutoff = 2\<rparr>,
        period = 1, outfile = Some (Path ''rdf.txt''), update_counts = 0,
        sel1 = None, sel2 = None, mask1 = Some [True, False, False, False],
        mask2 = Some [False, True, False, True], hist = [0, 0], binsize = 1,
        rdf_cutoff = 2\<rparr>) (numberOfAtoms
       \<lparr>positions = [(0, 0, 0), (1, 0, 0), (0, 1, 0), (2, 0, 0)], dimensions = (10, 10, 10),
        periodic = False, bonds = [], selections = []\<rparr>)"
    by (simp add: spec_eval_defs eval_defs)
  have sign: "\<forall>x y :: real. 0 \<le> x \<longrightarrow> 0 < y \<longrightarrow> 0 \<le> x / y"
    by simp
  have e: "RDF_do_update (/)
       \<lparr>category = PairwiseRef \<lparr>nlist_ready = True, nlist = [1, 2, 3, 0, 2, 3, 0, 1, 0, 1],
                                  nlist_lengths = [3, 3, 2, 2], cutoff = 2\<rparr>,
        period = 1, outfile = Some (Path ''rdf.txt''), update_counts = 0,
        sel1 = None, sel2 = None, mask1 = Some [True, False, False, False],
        mask2 = Some [False, True, False, True], hist = [0, 0], binsize = 1,
        rdf_cutoff = 2\<rparr>
       \<lparr>positions = [(0, 0, 0), (1, 0, 0), (0, 1, 0), (2, 0, 0)], dimensions = (10, 10, 10),
        periodic = False, bonds = [], selections = []\<rparr>
     = Inr \<lparr>category = PairwiseRef \<lparr>nlist_ready = True, nlist = [1, 2, 3, 0, 2, 3, 0, 1, 0, 1],
                                  nlist_lengths = [3, 3, 2, 2], cutoff = 2\<rparr>,
        period = 1, outfile = Some (Path ''rdf.txt''), update_counts = 0,
        sel1 = None, sel2 = None, mask1 = Some [True, False, False, False],
        mask2 = Some [False, True, False, True], hist = [0, 1], binsize = 1,
        rdf_cutoff = 2\<rparr>"
    using RDF_do_update_histogram
      [of "\<lparr>category = PairwiseRef \<lparr>nlist_ready = True, nlist = [1, 2, 3, 0, 2, 3, 0, 1, 0, 1],
                                  nlist_lengths = [3, 3, 2, 2], cutoff = 2\<rparr>,
        period = 1, outfile = Some (Path ''rdf.txt''), update_counts = 0,
        sel1 = None, sel2 = None, mask1 = Some [True, False, False, False],
        mask2 = Some [False, True, False, True], hist = [0, 0], binsize = 1,
        rdf_cutoff = 2\<rparr>" "(/)" "[True, False, False, False]" "[False, True, False, True]"
          "\<lparr>positions = [(0, 0, 0), (1, 0, 0), (0, 1, 0), (2, 0, 0)], dimensions = (10, 10, 10),
        periodic = False, bonds = [], selections = []\<rparr>", OF _ sign] ok b
    by (simp add: numberOfAtoms_def upt_rec)
  from e c b show ?thesis by simp
qed

subsection \<open>Fixed-stride sampling\<close>






lemma RDF_do_update_frame:
  "\<forall>s v s'. RDF_do_update fdiv s v = Inr s' \<longrightarrow>
           update_counts s' = update_counts s \<and> period s' = period s"
  by (auto simp: RDF_do_update_def split: sum.splits)


subsection \<open>Pickling an RDF and writing afterwards\<close>

text \<open>
  C4 as stated: the snapshot holds the path in place of the handle, and a write after
  restoration reopens the destination and keeps what was written before. On an RDF whose
  \<^verbatim>\<open>outfile\<close> is an open handle on \<^verbatim>\<open>rdf.txt\<close>, holding \<^verbatim>\<open>old rows\<close>:
  \<^verbatim>\<open>__getstate__\<close> returns a dictionary with no \<^verbatim>\<open>outfile\<close> entry at all (the path goes
  to the live object only); an object whose attributes are that dictionary raises
  \<^verbatim>\<open>AttributeError\<close> in \<^verbatim>\<open>write\<close> and the file stays as it was; and \<^verbatim>\<open>write\<close> on the
  live object opens the path with mode \<^verbatim>\<open>'w'\<close>, after which the file holds the new table
  only.
\<close>

theorem RDF_getstate_write_counterexample:
  "RDF_getstate
       \<lparr>category = PairwiseRef \<lparr>nlist_ready = True, nlist = [1, 0], nlist_lengths = [1, 1],
                                  cutoff = 2\<rparr>,
        period = 1, outfile = Some (File ''rdf.txt'' 8 False), update_counts = 4,
        sel1 = None, sel2 = None, mask1 = Some [True, True], mask2 = Some [True, True],
        hist = [0, 3], binsize = 1, rdf_cutoff = 2\<rparr>
     = Inr (\<lparr>category = PairwiseRef \<lparr>nlist_ready = True, nlist = [1, 0], nlist_lengths = [1, 1],
                                  cutoff = 2\<rparr>,
        period = 1, outfile = None, update_counts = 4,
        sel1 = None, sel2 = None, mask1 = Some [True, True], mask2 = Some [True, True],
        hist = [0, 3], binsize = 1, rdf_cutoff = 2\<rparr>,
            \<lparr>category = PairwiseRef \<lparr>nlist_ready = True, nlist = [1, 0], nlist_lengths = [1, 1],
                                  cutoff = 2\<rparr>,
        period = 1, outfile = Some (Path ''rdf.txt''), update_counts = 4,
        sel1 = None, sel2 = None, mask1 = Some [True, True], mask2 = Some [True, True],
        hist = [0, 3], binsize = 1, rdf_cutoff = 2\<rparr>)
   \<and> RDF_write (Inr [''new''])
       \<lparr>category = PairwiseRef \<lparr>nlist_ready = True, nlist = [1, 0], nlist_lengths = [1, 1],
                                  cutoff = 2\<rparr>,
        period = 1, outfile = None, update_counts = 4,
        sel1 = None, sel2 = None, mask1 = Some [True, True], mask2 = Some [True, True],
        hist = [0, 3], binsize = 1, rdf_cutoff = 2\<rparr>
       [(''rdf.txt'', ''old rows'')]
     = (Some AttributeError,
        \<lparr>category = PairwiseRef \<lparr>nlist_ready = True, nlist = [1, 0], nlist_lengths = [1, 1],
                                  cutoff = 2\<rparr>,
        period = 1, outfile = None, update_counts = 4,
        sel1 = None, sel2 = None, mask1 = Some [True, True], mask2 = Some [True, True],
        hist = [0, 3], binsize = 1, rdf_cutoff = 2\<rparr>,
        [(''rdf.txt'', ''old rows'')])
   \<and> RDF_write (Inr [''new''])
       \<lparr>category = PairwiseRef \<lparr>nlist_ready = True, nlist = [1, 0], nlist_lengths = [1, 1],
                                  cutoff = 2\<rparr>,
        period = 1, outfile = Some (Path ''rdf.txt''), update_counts = 4,
        sel1 = None, sel2 = None, mask1 = Some [True, True], mask2 = Some [True, True],
        hist = [0, 3], binsize = 1, rdf_cutoff = 2\<rparr>
       [(''rdf.txt'', ''old rows'')]
     = (None,
        \<lparr>category = PairwiseRef \<lparr>nlist_ready = True, nlist = [1, 0], nlist_lengths = [1, 1],
                                  cutoff = 2\<rparr>,
        period = 1, outfile = Some (File ''rdf.txt'' 3 False), update_counts = 4,
        sel1 = None, sel2 = None, mask1 = Some [True, True], mask2 = Some [True, True],
        hist = [0, 3], binsize = 1, rdf_cutoff = 2\<rparr>,
        [(''rdf.txt'', ''new'')])"
  by (simp add: RDF_getstate_def RDF_write_def fs_content_def file_write_def)

lemma write_rows_append:
  "write_rows rows content (length content)
     = (content @ concat rows, length content + length (concat rows))"
proof (induction rows arbitrary: content)
  case Nil
  then show ?case by simp
next
  case (Cons row rows)
  have "write_rows (row # rows) content (length content)
          = write_rows rows (content @ row) (length (content @ row))"
    by (simp add: file_write_def)
  then show ?case
    using Cons.IH[of "content @ row"] by simp
qed

lemma fs_content_fs_put: "fs_content (fs_put fs p c) q = (if q = p then c else fs_content fs q)"
  by (induction fs p c rule: fs_put.induct) (auto simp: fs_content_def)

text \<open>
  C4 as amended: for an RDF with an \<^verbatim>\<open>outfile\<close> attribute, \<^verbatim>\<open>__getstate__\<close> returns the
  object's attributes without any \<^verbatim>\<open>outfile\<close> entry, and leaves the path of the
  destination in the live object (a handle is replaced by its name). A \<^verbatim>\<open>write\<close> on the
  live object then opens that path afresh: when the table is computed, the destination
  holds exactly the rows of this write, and no other file changes.
\<close>

theorem RDF_getstate_write:
  assumes "outfile self = Some v"
  shows "RDF_getstate self
           = Inr (self\<lparr>outfile := None\<rparr>, self\<lparr>outfile := Some (Path (outfile_name v))\<rparr>)
         \<and> (\<exists>self' fs'.
               RDF_write (Inr rows) (self\<lparr>outfile := Some (Path (outfile_name v))\<rparr>) fs
                 = (None, self', fs')
               \<and> fs_content fs' (outfile_name v) = concat rows
               \<and> (\<forall>q. q \<noteq> outfile_name v \<longrightarrow> fs_content fs' q = fs_content fs q))"
proof -
  have g: "RDF_getstate self
           = Inr (self\<lparr>outfile := None\<rparr>, self\<lparr>outfile := Some (Path (outfile_name v))\<rparr>)"
    using assms by (cases v) (simp_all add: RDF_getstate_def)
  have w: "RDF_write (Inr rows) (self\<lparr>outfile := Some (Path (outfile_name v))\<rparr>) fs
      = (None, self\<lparr>outfile := Some (File (outfile_name v) (length (concat rows)) False)\<rparr>,
         fs_put (fs_put fs (outfile_name v) []) (outfile_name v) (concat rows))"
    using write_rows_append[of rows "[]"]
    by (simp add: RDF_write_def fs_content_fs_put)
  show ?thesis
    using g w by (simp add: fs_content_fs_put)
qed

theorem RDF_getstate_write_witness:
  "outfile
       \<lparr>category = PairwiseRef \<lparr>nlist_ready = True, nlist = [1, 0], nlist_lengths = [1, 1],
                                  cutoff = 2\<rparr>,
        period = 1, outfile = Some (File ''rdf.txt'' 8 False), update_counts = 4,
        sel1 = None, sel2 = None, mask1 = Some [True, True], mask2 = Some [True, True],
        hist = [0, 3], binsize = 1, rdf_cutoff = 2\<rparr> = Some (File ''rdf.txt'' 8 False)
   \<and> RDF_getstate
       \<lparr>category = PairwiseRef \<lparr>nlist_ready = True, nlist = [1, 0], nlist_lengths = [1, 1],
                                  cutoff = 2\<rparr>,
        period = 1, outfile = Some (File ''rdf.txt'' 8 False), update_counts = 4,
        sel1 = None, sel2 = None, mask1 = Some [True, True], mask2 = Some [True, True],
        hist = [0, 3], binsize = 1, rdf_cutoff = 2\<rparr>
     = Inr (\<lparr>category = PairwiseRef \<lparr>nlist_ready = True, nlist = [1, 0], nlist_lengths = [1, 1],
                                  cutoff = 2\<rparr>,
        period = 1, outfile = None, update_counts = 4,
        sel1 = None, sel2 = None, mask1 = Some [True, True], mask2 = Some [True, True],
        hist = [0, 3], binsize = 1, rdf_cutoff = 2\<rparr>,
            \<lparr>category = PairwiseRef \<lparr>nlist_ready = True, nlist = [1, 0], nlist_lengths = [1, 1],
                                  cutoff = 2\<rparr>,
        period = 1, outfile = Some (Path ''rdf.txt''), update_counts = 4,
        sel1 = None, sel2 = None, mask1 = Some [True, True], mask2 = Some [True, True],
        hist = [0, 3], binsize = 1, rdf_cutoff = 2\<rparr>)
   \<and> RDF_write (Inr [''a'', ''b''])
       \<lparr>category = PairwiseRef \<lparr>nlist_ready = True, nlist = [1, 0], nlist_lengths = [1, 1],
                                  cutoff = 2\<rparr>,
        period = 1, outfile = Some (Path ''rdf.txt''), update_counts = 4,
        sel1 = None, sel2 = None, mask1 = Some [True, True], mask2 = Some [True, True],
        hist = [0, 3], binsize = 1, rdf_cutoff = 2\<rparr>
       [(''rdf.txt'', ''old rows''), (''cn.txt'', ''1'')]
     = (None,
        \<lparr>category = PairwiseRef \<lparr>nlist_ready = True, nlist = [1, 0], nlist_lengths = [1, 1],
                                  cutoff = 2\<rparr>,
        period = 1, outfile = Some (File ''rdf.txt'' 2 False), update_counts = 4,
        sel1 = None, sel2 = None, mask1 = Some [True, True], mask2 = Some [True, True],
        hist = [0, 3], binsize = 1, rdf_cutoff = 2\<rparr>,
        [(''rdf.txt'', ''ab''), (''cn.txt'', ''1'')])"
  using RDF_getstate_write
    [of "\<lparr>category = PairwiseRef \<lparr>nlist_ready = True, nlist = [1, 0], nlist_lengths = [1, 1],
                                  cutoff = 2\<rparr>,
        period = 1, outfile = Some (File ''rdf.txt'' 8 False), update_counts = 4,
        sel1 = None, sel2 = None, mask1 = Some [True, True], mask2 = Some [True, True],
        hist = [0, 3], binsize = 1, rdf_cutoff = 2\<rparr>" "File ''rdf.txt'' 8 False" "[''a'', ''b'']"
        "[(''rdf.txt'', ''old rows''), (''cn.txt'', ''1'')]"]
  by (simp add: RDF_write_def fs_content_def file_write_def)

end
